theory Spec2Isabelle
  imports Complex_Main "HOL-Library.Sublist"
begin

section \<open>Highlight detection: \<open>backend/services/highlight_detector.py\<close>\<close>

text \<open>
  A shallow embedding of the class \<open>HighlightDetector\<close>. Python floats are idealised
  as \<^typ>\<open>real\<close> (no rounding, no overflow); the one non-number a float computation of
  this module produces from finite inputs, NaN, is kept as a value of its own
  (\<open>pyfloat\<close> below). Where the rounding decides a property, the lengths of the
  highlights, the functions are given a second time with the rounding of the float
  operations as a parameter (suffix \<open>_fl\<close>). Python's unbounded ints are \<^typ>\<open>int\<close>. Strings are ASCII texts:
  the character classes below are those of Python's \<open>str\<close> methods and of \<open>re\<close> on the
  code points below 128.
\<close>

subsection \<open>Exceptions\<close>

datatype error =
    KeyError string
  | IndexError
  | ZeroDivisionError
  | ProviderError

subsection \<open>Strings\<close>

definition ascii_lowercase :: string where
  "ascii_lowercase = ''abcdefghijklmnopqrstuvwxyz''"

definition ascii_uppercase :: string where
  "ascii_uppercase = ''ABCDEFGHIJKLMNOPQRSTUVWXYZ''"

definition digits :: string where
  "digits = ''0123456789''"


text \<open>\<open>str.isspace\<close>, which is also what \<open>str.split()\<close>, \<open>str.strip()\<close> and the
  regular expression class \<open>\s\<close> use: tab, line feed, vertical tab, form feed, carriage
  return, the four separators 0x1C..0x1F and the space.\<close>

definition whitespace :: string where
  "whitespace = [CHR 0x09, CHR 0x0A, CHR 0x0B, CHR 0x0C, CHR 0x0D,
                 CHR 0x1C, CHR 0x1D, CHR 0x1E, CHR 0x1F, CHR '' '']"

definition isspace :: "char \<Rightarrow> bool" where
  "isspace c = (c \<in> set whitespace)"

definition islower :: "char \<Rightarrow> bool" where
  "islower c = (c \<in> set ascii_lowercase)"

definition isupper :: "char \<Rightarrow> bool" where
  "isupper c = (c \<in> set ascii_uppercase)"

text \<open>A cased character is a letter.\<close>

definition iscased :: "char \<Rightarrow> bool" where
  "iscased c = (islower c \<or> isupper c)"

text \<open>The regular expression class \<open>\w\<close>: letters, digits and the underscore.\<close>

definition isword :: "char \<Rightarrow> bool" where
  "isword c = (c \<in> set (ascii_lowercase @ ascii_uppercase @ digits @ ''_''))"

definition lower_char :: "char \<Rightarrow> char" where
  "lower_char c = (case map_of (zip ascii_uppercase ascii_lowercase) c of
                     Some l \<Rightarrow> l | None \<Rightarrow> c)"

definition upper_char :: "char \<Rightarrow> char" where
  "upper_char c = (case map_of (zip ascii_lowercase ascii_uppercase) c of
                     Some u \<Rightarrow> u | None \<Rightarrow> c)"

text \<open>\<open>str.lower()\<close>\<close>

definition lower :: "string \<Rightarrow> string" where
  "lower s = map lower_char s"

text \<open>\<open>str.strip()\<close>\<close>

definition strip :: "string \<Rightarrow> string" where
  "strip s = rev (dropWhile isspace (rev (dropWhile isspace s)))"

text \<open>\<open>str.split()\<close> without a separator: the maximal runs of non-whitespace
  characters. The second argument is the word being read.\<close>

fun split_from :: "string \<Rightarrow> string \<Rightarrow> string list" where
  "split_from w [] = (if w = [] then [] else [w])"
| "split_from w (c # cs) =
     (if isspace c then (if w = [] then split_from [] cs else w # split_from [] cs)
      else split_from (w @ [c]) cs)"

definition split :: "string \<Rightarrow> string list" where
  "split s = split_from [] s"

text \<open>\<open>sep.join(words)\<close>\<close>

fun join :: "string \<Rightarrow> string list \<Rightarrow> string" where
  "join sep [] = []"
| "join sep [w] = w"
| "join sep (w # v # ws) = w @ sep @ join sep (v # ws)"

text \<open>\<open>str.title()\<close>: a character is lower-cased after a cased character and
  upper-cased otherwise. The flag says whether the previous character was cased.\<close>

fun title_from :: "bool \<Rightarrow> string \<Rightarrow> string" where
  "title_from previous_is_cased [] = []"
| "title_from previous_is_cased (c # cs) =
     (if previous_is_cased then lower_char c else upper_char c) # title_from (iscased c) cs"

definition title_case :: "string \<Rightarrow> string" where
  "title_case s = title_from False s"

text \<open>\<open>re.sub(r'[^\w\s-]', '', title)\<close>: every character that is not a word
  character, whitespace or a hyphen is deleted.\<close>

definition keeps :: "char \<Rightarrow> bool" where
  "keeps c = (isword c \<or> isspace c \<or> c = CHR ''-'')"

definition re_sub_punctuation :: "string \<Rightarrow> string" where
  "re_sub_punctuation s = filter keeps s"

text \<open>\<open>needle in haystack\<close> on strings: \<open>needle\<close> occurs as a contiguous substring.\<close>

fun startswith :: "string \<Rightarrow> string \<Rightarrow> bool" where
  "startswith s [] = True"
| "startswith [] (p # ps) = False"
| "startswith (c # cs) (p # ps) = (c = p \<and> startswith cs ps)"

fun str_contains :: "string \<Rightarrow> string \<Rightarrow> bool" where
  "str_contains [] needle = (needle = [])"
| "str_contains (c # cs) needle = (startswith (c # cs) needle \<or> str_contains cs needle)"

subsection \<open>\<open>_generate_title\<close>\<close>

definition generate_title :: "string \<Rightarrow> string" where
  "generate_title text =
     (let words = take 6 (split (strip text));
          title = join '' '' words;
          title = re_sub_punctuation title;
          title = strip title
      in if title = [] then ''Highlight'' else title_case title)"

subsection \<open>Data\<close>

text \<open>
  A transcript segment is a dict. Each field below is the value under one key
  (\<open>"start"\<close>, \<open>"end"\<close>, \<open>"text"\<close>, \<open>"confidence"\<close>), \<open>None\<close> when the dict has no
  such key, so that \<open>segment["start"]\<close> can raise \<open>KeyError\<close> as it does in Python.
\<close>

record segment =
  seg_start :: "real option"
  seg_end :: "real option"
  seg_text :: "string option"
  seg_confidence :: "real option"

definition getitem :: "string \<Rightarrow> 'a option \<Rightarrow> error + 'a" where
  "getitem key v = (case v of None \<Rightarrow> Inl (KeyError key) | Some x \<Rightarrow> Inr x)"

text \<open>List indexing with a non-negative index.\<close>

definition getindex :: "'a list \<Rightarrow> nat \<Rightarrow> error + 'a" where
  "getindex xs i = (if i < length xs then Inr (xs ! i) else Inl IndexError)"

text \<open>Python's \<open>/\<close> on numbers.\<close>

definition truediv :: "real \<Rightarrow> real \<Rightarrow> error + real" where
  "truediv a b = (if b = 0 then Inl ZeroDivisionError else Inr (a / b))"

text \<open>Sequencing: an exception of the first computation ends the whole.\<close>

definition and_then :: "error + 'a \<Rightarrow> ('a \<Rightarrow> error + 'b) \<Rightarrow> error + 'b" where
  "and_then m f = (case m of Inl e \<Rightarrow> Inl e | Inr x \<Rightarrow> f x)"

text \<open>A float: a number or NaN.\<close>

datatype pyfloat = Fin real | NaN

fun fmul :: "pyfloat \<Rightarrow> real \<Rightarrow> pyfloat" where
  "fmul (Fin a) b = Fin (a * b)"
| "fmul NaN b = NaN"

fun fadd :: "real \<Rightarrow> pyfloat \<Rightarrow> pyfloat" where
  "fadd a (Fin b) = Fin (a + b)"
| "fadd a NaN = NaN"

text \<open>The builtin \<open>min(a, b)\<close> returns \<open>a\<close> unless \<open>b < a\<close>; every comparison with
  NaN is false.\<close>

fun fmin :: "pyfloat \<Rightarrow> real \<Rightarrow> pyfloat" where
  "fmin (Fin a) b = Fin (if b < a then b else a)"
| "fmin NaN b = NaN"

fun flt :: "pyfloat \<Rightarrow> pyfloat \<Rightarrow> bool" where
  "flt (Fin a) (Fin b) = (a < b)"
| "flt _ _ = False"

text \<open>The dict of text features: six lists, one entry per segment.\<close>

record text_features =
  engagement_scores :: "int list"
  emotion_scores :: "int list"
  question_scores :: "int list"
  exclamation_scores :: "int list"
  word_counts :: "int list"
  speaking_rates :: "real list"

text \<open>The dict of audio features, as far as this module reads it: the values under
  \<open>"rms_energy"\<close> and \<open>"time_axis"\<close>, \<open>None\<close> for a missing key. The empty dict and
  \<open>{"duration": 0}\<close> both have neither.\<close>

record audio_features =
  rms_energy :: "real list option"
  time_axis :: "real list option"

text \<open>The dicts built by \<open>_score_segments\<close> (fields \<open>ss_\<close>) and the highlights
  (fields \<open>hl_\<close>); the prefix tells apart the keys the two dicts share.\<close>

record scored_segment =
  ss_start_time :: real
  ss_end_time :: real
  ss_text :: string
  ss_score :: pyfloat
  ss_confidence :: real

record highlight =
  hl_start_time :: real
  hl_end_time :: real
  hl_text :: string
  hl_score :: pyfloat
  hl_title :: string

subsection \<open>\<open>__init__\<close>: the keyword lists\<close>

definition engagement_keywords :: "string list" where
  "engagement_keywords =
    [''amazing'', ''incredible'', ''wow'', ''unbelievable'', ''shocking'', ''surprising'',
     ''important'', ''crucial'', ''key'', ''essential'', ''must'', ''never'', ''always'',
     ''secret'', ''hidden'', ''revealed'', ''discovery'', ''breakthrough'', ''game-changer'',
     ''mistake'', ''error'', ''wrong'', ''right'', ''correct'', ''truth'', ''fact'',
     ''question'', ''answer'', ''solution'', ''problem'', ''issue'', ''challenge'',
     ''tip'', ''trick'', ''hack'', ''method'', ''technique'', ''strategy'', ''way'',
     ''best'', ''worst'', ''top'', ''bottom'', ''first'', ''last'', ''only'', ''unique'']"

definition emotion_keywords :: "string list" where
  "emotion_keywords =
    [''love'', ''hate'', ''excited'', ''angry'', ''sad'', ''happy'', ''frustrated'',
     ''confused'', ''surprised'', ''shocked'', ''amazed'', ''disappointed'']"

subsection \<open>\<open>_extract_text_features\<close>\<close>

text \<open>\<open>sum(1 for keyword in keywords if keyword in text)\<close>\<close>

definition keyword_score :: "string list \<Rightarrow> string \<Rightarrow> int" where
  "keyword_score keywords txt = sum_list [1. keyword \<leftarrow> keywords, str_contains txt keyword]"

text \<open>\<open>text.count(c)\<close> for a one-character string.\<close>

definition count_char :: "string \<Rightarrow> char \<Rightarrow> int" where
  "count_char txt c = int (count_list txt c)"

text \<open>The body of the loop over the transcript: the features record is the dict of
  lists that the loop appends to.\<close>

fun extract_loop :: "text_features \<Rightarrow> segment list \<Rightarrow> error + text_features" where
  "extract_loop features [] = Inr features"
| "extract_loop features (segment # rest) =
     and_then (getitem ''text'' (seg_text segment)) (\<lambda>t.
     let txt = lower t in
     and_then (getitem ''end'' (seg_end segment)) (\<lambda>e.
     and_then (getitem ''start'' (seg_start segment)) (\<lambda>s.
     let duration = e - s;
         word_count = int (length (split txt));
         engagement_score = keyword_score engagement_keywords txt;
         emotion_score = keyword_score emotion_keywords txt;
         question_score = count_char txt CHR ''?'';
         exclamation_score = count_char txt CHR ''!''
     in
     and_then (truediv (real_of_int word_count) (max duration 1)) (\<lambda>speaking_rate.
     extract_loop
       \<lparr> engagement_scores = engagement_scores features @ [engagement_score],
         emotion_scores = emotion_scores features @ [emotion_score],
         question_scores = question_scores features @ [question_score],
         exclamation_scores = exclamation_scores features @ [exclamation_score],
         word_counts = word_counts features @ [word_count],
         speaking_rates = speaking_rates features @ [speaking_rate] \<rparr>
       rest))))"

definition extract_text_features :: "segment list \<Rightarrow> error + text_features" where
  "extract_text_features transcription =
     extract_loop
       \<lparr> engagement_scores = [], emotion_scores = [], question_scores = [],
         exclamation_scores = [], word_counts = [], speaking_rates = [] \<rparr>
       transcription"

subsection \<open>\<open>_extract_audio_features\<close>\<close>

text \<open>
  The argument is the outcome of constructing the \<open>TranscriptionService\<close> and awaiting
  its \<open>extract_audio_features(video_path)\<close>: the dict it returns or the exception it
  raises. The \<open>except Exception\<close> turns every exception into the empty dict.
\<close>

definition empty_audio :: audio_features where
  "empty_audio = \<lparr> rms_energy = None, time_axis = None \<rparr>"

definition extract_audio_features :: "error + audio_features \<Rightarrow> audio_features" where
  "extract_audio_features provider =
     (case provider of Inl e \<Rightarrow> empty_audio | Inr features \<Rightarrow> features)"

subsection \<open>\<open>_score_segments\<close>\<close>

text \<open>\<open>array.mean()\<close> and \<open>array.std()\<close> (the population standard deviation) of a
  non-empty array.\<close>

definition mean :: "real list \<Rightarrow> real" where
  "mean xs = sum_list xs / real (length xs)"

definition std :: "real list \<Rightarrow> real" where
  "std xs = sqrt (mean (map (\<lambda>x. \<bar>x - mean xs\<bar> ^ 2) xs))"

text \<open>\<open>(array - array.mean()) / max(array.std(), 1)\<close>, elementwise; the empty array
  stays empty.\<close>

definition standardize :: "real list \<Rightarrow> real list" where
  "standardize xs = map (\<lambda>x. (x - mean xs) / max (std xs) 1) xs"

text \<open>\<open>np.searchsorted(a, v)\<close> on an ascending array: the number of elements below
  \<open>v\<close>, which is the leftmost index where \<open>v\<close> can be inserted.\<close>

definition searchsorted :: "real list \<Rightarrow> real \<Rightarrow> nat" where
  "searchsorted a v = length (takeWhile (\<lambda>t. t < v) a)"

text \<open>\<open>np.mean\<close> of a slice: NaN (with a warning, not an exception) when the slice is
  empty.\<close>

definition np_mean :: "real list \<Rightarrow> pyfloat" where
  "np_mean xs = (if xs = [] then NaN else Fin (mean xs))"

text \<open>\<open>a[i:j]\<close> for \<open>0 \<le> i\<close>, \<open>0 \<le> j\<close>\<close>

definition slice :: "'a list \<Rightarrow> nat \<Rightarrow> nat \<Rightarrow> 'a list" where
  "slice a i j = take (j - i) (drop i a)"

text \<open>
  The audio block of the loop body (the \<open>if audio_features and "rms_energy" in
  audio_features\<close> with its \<open>try\<close>): \<open>None\<close> when nothing is added to the score,
  otherwise the value of \<open>energy_score\<close>. A \<open>KeyError\<close> for \<open>"start"\<close> or \<open>"end"\<close> inside
  the \<open>try\<close> is caught there.
\<close>

definition energy_score :: "audio_features \<Rightarrow> segment \<Rightarrow> pyfloat option" where
  "energy_score audio segment =
     (case rms_energy audio of
        None \<Rightarrow> None
      | Some rms \<Rightarrow>
          (case (seg_start segment, seg_end segment) of
             (Some start_time, Some end_time) \<Rightarrow>
               (let times = (case time_axis audio of None \<Rightarrow> [] | Some ts \<Rightarrow> ts) in
                if length times > 0 \<and> length rms > 0 then
                  (let start_idx = searchsorted times start_time;
                       end_idx = searchsorted times end_time
                   in if start_idx < length rms \<and> end_idx \<le> length rms then
                        (let segment_energy = np_mean (slice rms start_idx end_idx)
                         in Some (fmin (fmul segment_energy 10) 1.0))
                      else None)
                else None)
           | _ \<Rightarrow> None))"

text \<open>The text-based part of the score of segment \<open>i\<close>, from the five arrays.\<close>

definition text_score ::
  "real list \<Rightarrow> real list \<Rightarrow> int list \<Rightarrow> int list \<Rightarrow> real list \<Rightarrow> nat \<Rightarrow> error + real" where
  "text_score engagement emotion question exclamation rates i =
     and_then (getindex engagement i) (\<lambda>en.
     and_then (getindex emotion i) (\<lambda>em.
     and_then (getindex question i) (\<lambda>q.
     and_then (getindex exclamation i) (\<lambda>x.
     and_then (getindex rates i) (\<lambda>r.
       Inr (0.0 + en * 0.3 + em * 0.2 + real_of_int q * 0.1 + real_of_int x * 0.1
            + min r 2.0 * 0.1))))))"

definition score_segment ::
  "real list \<Rightarrow> real list \<Rightarrow> int list \<Rightarrow> int list \<Rightarrow> real list \<Rightarrow> audio_features
   \<Rightarrow> nat \<Rightarrow> segment \<Rightarrow> error + scored_segment" where
  "score_segment engagement emotion question exclamation rates audio i segment =
     and_then (text_score engagement emotion question exclamation rates i) (\<lambda>score.
     let score = (case energy_score audio segment of
                    None \<Rightarrow> Fin score
                  | Some energy \<Rightarrow> fadd score (fmul energy 0.2)) in
     and_then (getitem ''start'' (seg_start segment)) (\<lambda>s.
     and_then (getitem ''end'' (seg_end segment)) (\<lambda>e.
     and_then (getitem ''text'' (seg_text segment)) (\<lambda>t.
       Inr \<lparr> ss_start_time = s, ss_end_time = e, ss_text = t, ss_score = score,
             ss_confidence = (case seg_confidence segment of None \<Rightarrow> 0.0 | Some c \<Rightarrow> c) \<rparr>))))"

fun score_loop ::
  "real list \<Rightarrow> real list \<Rightarrow> int list \<Rightarrow> int list \<Rightarrow> real list \<Rightarrow> audio_features
   \<Rightarrow> nat \<Rightarrow> segment list \<Rightarrow> error + scored_segment list" where
  "score_loop engagement emotion question exclamation rates audio i [] = Inr []"
| "score_loop engagement emotion question exclamation rates audio i (segment # rest) =
     and_then (score_segment engagement emotion question exclamation rates audio i segment)
       (\<lambda>scored.
     and_then (score_loop engagement emotion question exclamation rates audio (Suc i) rest)
       (\<lambda>scored_rest. Inr (scored # scored_rest)))"

definition score_segments ::
  "segment list \<Rightarrow> text_features \<Rightarrow> audio_features \<Rightarrow> error + scored_segment list" where
  "score_segments transcription features audio =
     (let engagement = map real_of_int (engagement_scores features);
          emotion = map real_of_int (emotion_scores features);
          rates = speaking_rates features;
          normalized = length engagement > 1
      in score_loop
           (if normalized then standardize engagement else engagement)
           (if normalized then standardize emotion else emotion)
           (question_scores features)
           (exclamation_scores features)
           (if normalized then standardize rates else rates)
           audio 0 transcription)"

subsection \<open>\<open>_select_highlights\<close>\<close>

text \<open>
  \<open>sorted(scored_segments, key=lambda x: x["score"], reverse=True)\<close>: the stable
  descending order. An element moves behind a later one only if its key is smaller;
  with NaN among the keys no comparison moves anything, and the order CPython then
  produces depends on the runs its merge sort finds, so nothing below relies on the
  order of a list with NaN keys.
\<close>

fun insert_descending :: "scored_segment \<Rightarrow> scored_segment list \<Rightarrow> scored_segment list" where
  "insert_descending x [] = [x]"
| "insert_descending x (y # ys) =
     (if flt (ss_score x) (ss_score y) then y # insert_descending x ys else x # y # ys)"

definition sorted_descending :: "scored_segment list \<Rightarrow> scored_segment list" where
  "sorted_descending xs = foldr insert_descending xs []"

text \<open>The duration check of the loop body: the interval of a segment after it has
  been extended to \<open>min_duration\<close> or trimmed to \<open>max_duration\<close>.\<close>

definition repair_duration :: "real \<Rightarrow> real \<Rightarrow> int \<Rightarrow> int \<Rightarrow> real \<times> real" where
  "repair_duration start_time end_time min_duration max_duration =
     (let duration = end_time - start_time in
      if duration < real_of_int min_duration \<or> duration > real_of_int max_duration then
        (if duration < real_of_int min_duration then
           (let extension = (real_of_int min_duration - duration) / 2
            in (max 0 (start_time - extension), end_time + extension))
         else if duration > real_of_int max_duration then
           (start_time, start_time + real_of_int max_duration)
         else (start_time, end_time))
      else (start_time, end_time))"

text \<open>The inner loop over \<open>used_time_ranges\<close>.\<close>

definition overlaps_used :: "(real \<times> real) list \<Rightarrow> real \<Rightarrow> real \<Rightarrow> bool" where
  "overlaps_used used_time_ranges start_time end_time =
     list_ex (\<lambda>(used_start, used_end). start_time < used_end \<and> end_time > used_start)
       used_time_ranges"

text \<open>The loop over the sorted segments, with the two lists it appends to.\<close>

fun select_loop ::
  "highlight list \<Rightarrow> (real \<times> real) list \<Rightarrow> int \<Rightarrow> int \<Rightarrow> int \<Rightarrow> scored_segment list
   \<Rightarrow> highlight list" where
  "select_loop highlights used_time_ranges max_clips min_duration max_duration [] = highlights"
| "select_loop highlights used_time_ranges max_clips min_duration max_duration (segment # rest) =
     (if int (length highlights) \<ge> max_clips then highlights
      else
        (let (start_time, end_time) =
               repair_duration (ss_start_time segment) (ss_end_time segment)
                 min_duration max_duration
         in if \<not> overlaps_used used_time_ranges start_time end_time then
              select_loop
                (highlights @
                   [\<lparr> hl_start_time = start_time, hl_end_time = end_time,
                      hl_text = ss_text segment, hl_score = ss_score segment,
                      hl_title = generate_title (ss_text segment) \<rparr>])
                (used_time_ranges @ [(start_time, end_time)])
                max_clips min_duration max_duration rest
            else
              select_loop highlights used_time_ranges max_clips min_duration max_duration rest))"

definition select_highlights ::
  "scored_segment list \<Rightarrow> int \<Rightarrow> int \<Rightarrow> int \<Rightarrow> highlight list" where
  "select_highlights scored_segments max_clips min_duration max_duration =
     select_loop [] [] max_clips min_duration max_duration (sorted_descending scored_segments)"

subsection \<open>\<open>_fallback_highlights\<close>\<close>

text \<open>\<open>str(n)\<close> for a natural number.\<close>

fun str_nat :: "nat \<Rightarrow> string" where
  "str_nat n = (if n < 10 then [digits ! n] else str_nat (n div 10) @ [digits ! (n mod 10)])"

text \<open>The inner loop that collects the text of the segments lying within the
  window; \<open>and\<close> does not read \<open>"end"\<close> when the first comparison fails.\<close>

fun window_text :: "real \<Rightarrow> real \<Rightarrow> string \<Rightarrow> segment list \<Rightarrow> error + string" where
  "window_text start_time end_time segment_text [] = Inr segment_text"
| "window_text start_time end_time segment_text (segment # rest) =
     and_then (getitem ''start'' (seg_start segment)) (\<lambda>s.
     if s \<ge> start_time then
       and_then (getitem ''end'' (seg_end segment)) (\<lambda>e.
       if e \<le> end_time then
         and_then (getitem ''text'' (seg_text segment)) (\<lambda>t.
         window_text start_time end_time (segment_text @ t @ '' '') rest)
       else window_text start_time end_time segment_text rest)
     else window_text start_time end_time segment_text rest)"

text \<open>
  The loop \<open>for i in range(max_clips)\<close>: \<open>remaining\<close> counts the iterations left,
  \<open>i\<close> is the loop variable, \<open>current_time\<close> the cursor, \<open>last_end\<close> the value of
  \<open>transcription[-1]["end"]\<close>. The result is the list of the highlights appended from
  this iteration on.
\<close>

fun fallback_loop ::
  "segment list \<Rightarrow> real \<Rightarrow> real \<Rightarrow> nat \<Rightarrow> nat \<Rightarrow> real \<Rightarrow> error + highlight list" where
  "fallback_loop transcription segment_duration last_end 0 i current_time = Inr []"
| "fallback_loop transcription segment_duration last_end (Suc remaining) i current_time =
     (let start_time = current_time;
          end_time = min (start_time + segment_duration) last_end
      in and_then (window_text start_time end_time [] transcription) (\<lambda>segment_text.
         let appended =
               (if strip segment_text \<noteq> [] then
                  [\<lparr> hl_start_time = start_time, hl_end_time = end_time,
                     hl_text = strip segment_text, hl_score = Fin 0.5,
                     hl_title = ''Highlight '' @ str_nat (i + 1) \<rparr>]
                else []);
             current_time = end_time + 10
         in if current_time \<ge> last_end then Inr appended
            else and_then
                   (fallback_loop transcription segment_duration last_end remaining (Suc i)
                      current_time)
                   (\<lambda>later. Inr (appended @ later))))"

definition fallback_highlights ::
  "segment list \<Rightarrow> int \<Rightarrow> int \<Rightarrow> int \<Rightarrow> error + highlight list" where
  "fallback_highlights transcription max_clips min_duration max_duration =
     (if transcription = [] then Inr []
      else
        and_then (getitem ''end'' (seg_end (last transcription))) (\<lambda>last_end.
        and_then (getitem ''start'' (seg_start (hd transcription))) (\<lambda>first_start.
        let total_duration = last_end - first_start in
        and_then (truediv total_duration (real_of_int max_clips)) (\<lambda>per_clip.
        let segment_duration =
              min (real_of_int max_duration) (max (real_of_int min_duration) per_clip)
        in fallback_loop transcription segment_duration last_end (nat max_clips) 0
             first_start))))"

subsection \<open>\<open>detect_highlights\<close>\<close>

text \<open>The body of the \<open>try\<close>.\<close>

definition scored_path ::
  "error + audio_features \<Rightarrow> segment list \<Rightarrow> int \<Rightarrow> int \<Rightarrow> int \<Rightarrow> error + highlight list" where
  "scored_path provider transcription max_clips min_duration max_duration =
     and_then (extract_text_features transcription) (\<lambda>features.
     let audio = extract_audio_features provider in
     and_then (score_segments transcription features audio) (\<lambda>scored_segments.
     Inr (select_highlights scored_segments max_clips min_duration max_duration)))"

text \<open>The \<open>try\<close> with its \<open>except Exception\<close>: whatever the body raises, the result is
  that of the fallback, which may raise in turn.\<close>

definition detect_highlights ::
  "error + audio_features \<Rightarrow> segment list \<Rightarrow> int \<Rightarrow> int \<Rightarrow> int \<Rightarrow> error + highlight list" where
  "detect_highlights provider transcription max_clips min_duration max_duration =
     (case scored_path provider transcription max_clips min_duration max_duration of
        Inr highlights \<Rightarrow> Inr highlights
      | Inl e \<Rightarrow> fallback_highlights transcription max_clips min_duration max_duration)"

subsection \<open>The two generators in float arithmetic\<close>

text \<open>
  The times of a transcript are floats, and \<open>+\<close>, \<open>-\<close> and \<open>/\<close> on floats return the float
  nearest to the exact result. The lengths of the highlights depend on it, so the
  selection and the fallback generator are given once more with the rounding as a
  parameter: \<open>rnd x\<close> is the float that an operation with the exact result \<open>x\<close>
  returns. Comparisons, \<open>min\<close> and \<open>max\<close> do not round; the conversion of the ints
  \<open>min_duration\<close>, \<open>max_duration\<close>, \<open>max_clips\<close> and \<open>10\<close> to float is exact below \<open>2^53\<close>
  and is left out; no operation overflows. With \<open>\<lambda>x. x\<close> for \<open>rnd\<close> these are the
  functions above.
\<close>

text \<open>The duration check: \<open>duration = end_time - start_time\<close>,
  \<open>extension = (min_duration - duration) / 2\<close>, \<open>max(0, start_time - extension)\<close>,
  \<open>end_time + extension\<close> and \<open>start_time + max_duration\<close>, one rounding for each
  operation.\<close>

definition repair_duration_fl ::
  "(real \<Rightarrow> real) \<Rightarrow> real \<Rightarrow> real \<Rightarrow> int \<Rightarrow> int \<Rightarrow> real \<times> real" where
  "repair_duration_fl rnd start_time end_time min_duration max_duration =
     (let duration = rnd (end_time - start_time) in
      if duration < real_of_int min_duration \<or> duration > real_of_int max_duration then
        (if duration < real_of_int min_duration then
           (let extension = rnd (rnd (real_of_int min_duration - duration) / 2)
            in (max 0 (rnd (start_time - extension)), rnd (end_time + extension)))
         else if duration > real_of_int max_duration then
           (start_time, rnd (start_time + real_of_int max_duration))
         else (start_time, end_time))
      else (start_time, end_time))"

text \<open>The loop of \<open>_select_highlights\<close> and the method.\<close>

fun select_loop_fl ::
  "(real \<Rightarrow> real) \<Rightarrow> highlight list \<Rightarrow> (real \<times> real) list \<Rightarrow> int \<Rightarrow> int \<Rightarrow> int
   \<Rightarrow> scored_segment list \<Rightarrow> highlight list" where
  "select_loop_fl rnd highlights used_time_ranges max_clips min_duration max_duration [] =
     highlights"
| "select_loop_fl rnd highlights used_time_ranges max_clips min_duration max_duration
     (segment # rest) =
     (if int (length highlights) \<ge> max_clips then highlights
      else
        (let (start_time, end_time) =
               repair_duration_fl rnd (ss_start_time segment) (ss_end_time segment)
                 min_duration max_duration
         in if \<not> overlaps_used used_time_ranges start_time end_time then
              select_loop_fl rnd
                (highlights @
                   [\<lparr> hl_start_time = start_time, hl_end_time = end_time,
                      hl_text = ss_text segment, hl_score = ss_score segment,
                      hl_title = generate_title (ss_text segment) \<rparr>])
                (used_time_ranges @ [(start_time, end_time)])
                max_clips min_duration max_duration rest
            else
              select_loop_fl rnd highlights used_time_ranges max_clips min_duration
                max_duration rest))"

definition select_highlights_fl ::
  "(real \<Rightarrow> real) \<Rightarrow> scored_segment list \<Rightarrow> int \<Rightarrow> int \<Rightarrow> int \<Rightarrow> highlight list" where
  "select_highlights_fl rnd scored_segments max_clips min_duration max_duration =
     select_loop_fl rnd [] [] max_clips min_duration max_duration
       (sorted_descending scored_segments)"

text \<open>The loop of \<open>_fallback_highlights\<close>, in which
  \<open>start_time + segment_duration\<close> and \<open>end_time + 10\<close> round, and the method, in which
  \<open>transcription[-1]["end"] - transcription[0]["start"]\<close> and the division by
  \<open>max_clips\<close> round.\<close>

fun fallback_loop_fl ::
  "(real \<Rightarrow> real) \<Rightarrow> segment list \<Rightarrow> real \<Rightarrow> real \<Rightarrow> nat \<Rightarrow> nat \<Rightarrow> real
   \<Rightarrow> error + highlight list" where
  "fallback_loop_fl rnd transcription segment_duration last_end 0 i current_time = Inr []"
| "fallback_loop_fl rnd transcription segment_duration last_end (Suc remaining) i current_time =
     (let start_time = current_time;
          end_time = min (rnd (start_time + segment_duration)) last_end
      in and_then (window_text start_time end_time [] transcription) (\<lambda>segment_text.
         let appended =
               (if strip segment_text \<noteq> [] then
                  [\<lparr> hl_start_time = start_time, hl_end_time = end_time,
                     hl_text = strip segment_text, hl_score = Fin 0.5,
                     hl_title = ''Highlight '' @ str_nat (i + 1) \<rparr>]
                else []);
             current_time = rnd (end_time + 10)
         in if current_time \<ge> last_end then Inr appended
            else and_then
                   (fallback_loop_fl rnd transcription segment_duration last_end remaining
                      (Suc i) current_time)
                   (\<lambda>later. Inr (appended @ later))))"

definition fallback_highlights_fl ::
  "(real \<Rightarrow> real) \<Rightarrow> segment list \<Rightarrow> int \<Rightarrow> int \<Rightarrow> int \<Rightarrow> error + highlight list" where
  "fallback_highlights_fl rnd transcription max_clips min_duration max_duration =
     (if transcription = [] then Inr []
      else
        and_then (getitem ''end'' (seg_end (last transcription))) (\<lambda>last_end.
        and_then (getitem ''start'' (seg_start (hd transcription))) (\<lambda>first_start.
        let total_duration = rnd (last_end - first_start) in
        and_then (truediv total_duration (real_of_int max_clips)) (\<lambda>quotient.
        let segment_duration =
              min (real_of_int max_duration) (max (real_of_int min_duration) (rnd quotient))
        in fallback_loop_fl rnd transcription segment_duration last_end (nat max_clips) 0
             first_start))))"

subsection \<open>Predicates used in the statements\<close>

text \<open>Two highlights whose intervals \<open>[start, end)\<close> do not overlap.\<close>

definition apart :: "highlight \<Rightarrow> highlight \<Rightarrow> bool" where
  "apart a b = (hl_start_time a \<ge> hl_end_time b \<or> hl_start_time b \<ge> hl_end_time a)"

text \<open>What one iteration of the fallback loop appends for the window
  \<open>[start_time, end_time]\<close> with the collected text, in iteration \<open>i\<close>.\<close>

definition window_highlights :: "real \<Rightarrow> real \<Rightarrow> string \<Rightarrow> nat \<Rightarrow> highlight list" where
  "window_highlights start_time end_time segment_text i =
     (if strip segment_text \<noteq> [] then
        [\<lparr> hl_start_time = start_time, hl_end_time = end_time,
           hl_text = strip segment_text, hl_score = Fin 0.5,
           hl_title = ''Highlight '' @ str_nat (i + 1) \<rparr>]
      else [])"

declare str_nat.simps [simp del]


text \<open>
  The count that the specification words describe for a keyword list: every position of
  the text at which a phrase starts counts, so a phrase occurring \<open>k\<close> times
  contributes \<open>k\<close>.
\<close>

fun occurrences :: "string \<Rightarrow> string \<Rightarrow> nat" where
  "occurrences phrase [] = (if phrase = [] then 1 else 0)"
| "occurrences phrase (c # cs) =
     (if startswith (c # cs) phrase then 1 else 0) + occurrences phrase cs"

definition occurrence_score :: "string list \<Rightarrow> string \<Rightarrow> int" where
  "occurrence_score keywords txt = (\<Sum>keyword\<leftarrow>keywords. int (occurrences keyword txt))"

text \<open>The features of one segment, for a segment that has all three keys.\<close>

definition lowered_text :: "segment \<Rightarrow> string" where
  "lowered_text segment = lower (the (seg_text segment))"

definition segment_duration_of :: "segment \<Rightarrow> real" where
  "segment_duration_of segment = the (seg_end segment) - the (seg_start segment)"

definition well_formed :: "segment \<Rightarrow> bool" where
  "well_formed segment =
     (seg_text segment \<noteq> None \<and> seg_start segment \<noteq> None \<and> seg_end segment \<noteq> None)"

text \<open>
  The score in the words of the specification: mean and standard deviation over the
  whole transcript, \<open>z(x) = (x - mean) / max(std, 1)\<close>, and the weighted sum of the
  text signals.
\<close>

definition spec_mean :: "real list \<Rightarrow> real" where
  "spec_mean xs = (\<Sum>j<length xs. xs ! j) / real (length xs)"

definition spec_std :: "real list \<Rightarrow> real" where
  "spec_std xs = sqrt ((\<Sum>j<length xs. (xs ! j - spec_mean xs) ^ 2) / real (length xs))"

definition z :: "real list \<Rightarrow> nat \<Rightarrow> real" where
  "z xs i = (xs ! i - spec_mean xs) / max (spec_std xs) 1"

definition spec_text_score :: "text_features \<Rightarrow> nat \<Rightarrow> real" where
  "spec_text_score features i =
     0.3 * z (map real_of_int (engagement_scores features)) i
     + 0.2 * z (map real_of_int (emotion_scores features)) i
     + 0.1 * real_of_int (question_scores features ! i)
     + 0.1 * real_of_int (exclamation_scores features ! i)
     + 0.1 * min (z (speaking_rates features) i) 2.0"

text \<open>The same weighted sum over the signals as they are, without \<open>z\<close>.\<close>

definition raw_text_score :: "text_features \<Rightarrow> nat \<Rightarrow> real" where
  "raw_text_score features i =
     0.3 * real_of_int (engagement_scores features ! i)
     + 0.2 * real_of_int (emotion_scores features ! i)
     + 0.1 * real_of_int (question_scores features ! i)
     + 0.1 * real_of_int (exclamation_scores features ! i)
     + 0.1 * min (speaking_rates features ! i) 2.0"

section \<open>Properties\<close>

subsection \<open>Sequencing\<close>

lemma and_then_Inr [simp]: "and_then (Inr x) f = f x"
  by (simp add: and_then_def)

lemma and_then_Inl [simp]: "and_then (Inl e) f = Inl e"
  by (simp add: and_then_def)

lemma and_then_eq_Inr: "and_then m f = Inr y \<longleftrightarrow> (\<exists>x. m = Inr x \<and> f x = Inr y)"
  by (cases m) simp_all

subsection \<open>Unfolding the definitions on concrete inputs\<close>

lemmas string_defs = strip_def split_def lower_def lower_char_def upper_char_def
  isspace_def islower_def isupper_def iscased_def isword_def keeps_def whitespace_def
  ascii_lowercase_def ascii_uppercase_def digits_def re_sub_punctuation_def title_case_def
  generate_title_def

lemmas feature_defs = extract_text_features_def keyword_score_def count_char_def
  engagement_keywords_def emotion_keywords_def getitem_def truediv_def

lemmas scoring_defs = score_segments_def score_segment_def text_score_def getindex_def
  energy_score_def standardize_def mean_def std_def extract_audio_features_def empty_audio_def
  searchsorted_def np_mean_def slice_def

lemmas selection_defs = select_highlights_def sorted_descending_def repair_duration_def
  overlaps_used_def

subsection \<open>The selection loop\<close>

lemma select_loop_apart:
  "sorted_wrt apart hs \<Longrightarrow> used = map (\<lambda>h. (hl_start_time h, hl_end_time h)) hs
   \<Longrightarrow> sorted_wrt apart (select_loop hs used mc mn mx segs)"
proof (induction segs arbitrary: hs used)
  case Nil
  then show ?case by simp
next
  case (Cons seg rest)
  obtain s e where se: "repair_duration (ss_start_time seg) (ss_end_time seg) mn mx = (s, e)"
    by (cases "repair_duration (ss_start_time seg) (ss_end_time seg) mn mx")
  let ?h = "\<lparr> hl_start_time = s, hl_end_time = e, hl_text = ss_text seg,
              hl_score = ss_score seg, hl_title = generate_title (ss_text seg) \<rparr>"
  show ?case
  proof (cases "int (length hs) \<ge> mc")
    case True
    with Cons.prems show ?thesis by simp
  next
    case False
    show ?thesis
    proof (cases "overlaps_used used s e")
      case True
      with False se Cons show ?thesis by simp
    next
      case no: False
      have "\<forall>h'\<in>set hs. apart h' ?h"
        using no Cons.prems(2) by (auto simp: overlaps_used_def list_ex_iff apart_def)
      then have "sorted_wrt apart (hs @ [?h])"
        using Cons.prems(1) by (simp add: sorted_wrt_append)
      moreover have "used @ [(s, e)] = map (\<lambda>h. (hl_start_time h, hl_end_time h)) (hs @ [?h])"
        using Cons.prems(2) by simp
      ultimately have "sorted_wrt apart (select_loop (hs @ [?h]) (used @ [(s, e)]) mc mn mx rest)"
        by (rule Cons.IH)
      with False no se show ?thesis by simp
    qed
  qed
qed

lemma select_loop_length:
  "int (length hs) \<le> max 0 mc \<Longrightarrow> int (length (select_loop hs used mc mn mx segs)) \<le> max 0 mc"
proof (induction segs arbitrary: hs used)
  case Nil
  then show ?case by simp
next
  case (Cons seg rest)
  show ?case
  proof (cases "int (length hs) \<ge> mc")
    case True
    with Cons.prems show ?thesis by simp
  next
    case False
    then have "int (length (hs @ [h])) \<le> max 0 mc" for h by simp
    with False Cons.IH Cons.prems show ?thesis
      by (auto simp: Let_def split: prod.splits)
  qed
qed

subsection \<open>The fallback loop\<close>

lemma fallback_loop_Suc:
  "fallback_loop T d L (Suc n) i cur =
     and_then (window_text cur (min (cur + d) L) [] T) (\<lambda>body.
       if min (cur + d) L + 10 \<ge> L then Inr (window_highlights cur (min (cur + d) L) body i)
       else and_then (fallback_loop T d L n (Suc i) (min (cur + d) L + 10))
              (\<lambda>later. Inr (window_highlights cur (min (cur + d) L) body i @ later)))"
  by (simp only: fallback_loop.simps Let_def window_highlights_def)

lemma window_highlights_cases:
  "window_highlights s e body i = [] \<or>
   (\<exists>h. window_highlights s e body i = [h] \<and> hl_start_time h = s \<and> hl_end_time h = e)"
  by (simp add: window_highlights_def)

lemma fallback_loop_Suc_Inr:
  assumes "fallback_loop T d L (Suc n) i cur = Inr hs"
  obtains e body where "e = min (cur + d) L" and "window_text cur e [] T = Inr body"
    and "L \<le> e + 10" and "hs = window_highlights cur e body i"
  | e body later where "e = min (cur + d) L" and "window_text cur e [] T = Inr body"
    and "e + 10 < L"
    and "fallback_loop T d L n (Suc i) (e + 10) = Inr later"
    and "hs = window_highlights cur e body i @ later"
proof -
  define e where "e = min (cur + d) L"
  from assms obtain body where body: "window_text cur e [] T = Inr body"
    and rest: "(if L \<le> e + 10
                then Inr (window_highlights cur e body i)
                else and_then (fallback_loop T d L n (Suc i) (e + 10))
                  (\<lambda>later. Inr (window_highlights cur e body i @ later)))
               = Inr hs"
    unfolding fallback_loop_Suc and_then_eq_Inr e_def by blast
  show thesis
  proof (cases "L \<le> e + 10")
    case True
    with rest have "hs = window_highlights cur e body i" by simp
    with True body e_def that(1) show thesis by blast
  next
    case False
    with rest obtain later where "fallback_loop T d L n (Suc i) (e + 10) = Inr later"
      and "hs = window_highlights cur e body i @ later"
      by (auto simp: and_then_eq_Inr)
    with False body e_def that(2) [of e body later] show thesis by simp
  qed
qed

lemma fallback_loop_length:
  "fallback_loop T d L n i cur = Inr hs \<Longrightarrow> length hs \<le> n"
proof (induction n arbitrary: i cur hs)
  case 0
  then show ?case by simp
next
  case (Suc n)
  from Suc.prems show ?case
  proof (cases rule: fallback_loop_Suc_Inr)
    case (1 e body)
    then show ?thesis using window_highlights_cases [of cur e body i] by auto
  next
    case (2 e body later)
    from Suc.IH [OF 2(4)] 2(5) show ?thesis
      using window_highlights_cases [of cur e body i] by auto
  qed
qed

text \<open>When the window length is at least -10, the cursor never moves back.\<close>

lemma fallback_loop_starts_after:
  "fallback_loop T d L n i cur = Inr hs \<Longrightarrow> - 10 \<le> d \<Longrightarrow> \<forall>h\<in>set hs. cur \<le> hl_start_time h"
proof (induction n arbitrary: i cur hs)
  case 0
  then show ?case by simp
next
  case (Suc n)
  from Suc.prems(1) show ?case
  proof (cases rule: fallback_loop_Suc_Inr)
    case (1 e body)
    then show ?thesis using window_highlights_cases [of cur e body i] by auto
  next
    case (2 e body later)
    have "\<forall>h\<in>set later. e + 10 \<le> hl_start_time h"
      using Suc.IH [OF 2(4) Suc.prems(2)] .
    moreover have "cur \<le> e + 10"
      using 2(1,3) Suc.prems(2) by (auto simp: min_def split: if_splits)
    ultimately show ?thesis
      using 2(5) window_highlights_cases [of cur e body i] by fastforce
  qed
qed

lemma fallback_loop_starts_before:
  "fallback_loop T d L n i cur = Inr hs \<Longrightarrow> d < - 10 \<Longrightarrow>
   \<forall>h\<in>set hs. hl_start_time h \<le> cur \<and> hl_end_time h \<le> hl_start_time h + d"
proof (induction n arbitrary: i cur hs)
  case 0
  then show ?case by simp
next
  case (Suc n)
  from Suc.prems(1) show ?case
  proof (cases rule: fallback_loop_Suc_Inr)
    case (1 e body)
    then show ?thesis using window_highlights_cases [of cur e body i] by auto
  next
    case (2 e body later)
    have "\<forall>h\<in>set later. hl_start_time h \<le> e + 10
            \<and> hl_end_time h \<le> hl_start_time h + d"
      using Suc.IH [OF 2(4) Suc.prems(2)] .
    moreover have "e + 10 \<le> cur" "e \<le> cur + d"
      using 2(1) Suc.prems(2) by (auto simp: min_def split: if_splits)
    ultimately show ?thesis
      using 2(5) window_highlights_cases [of cur e body i] by fastforce
  qed
qed

lemma fallback_loop_apart:
  "fallback_loop T d L n i cur = Inr hs \<Longrightarrow> sorted_wrt apart hs"
proof (induction n arbitrary: i cur hs)
  case 0
  then show ?case by simp
next
  case (Suc n)
  from Suc.prems(1) show ?case
  proof (cases rule: fallback_loop_Suc_Inr)
    case (1 e body)
    then show ?thesis using window_highlights_cases [of cur e body i] by auto
  next
    case (2 e body later)
    have later: "sorted_wrt apart later" using Suc.IH [OF 2(4)] .
    have "\<forall>h\<in>set later. e \<le> hl_start_time h \<or> hl_end_time h \<le> cur"
    proof (cases "- 10 \<le> d")
      case True
      have "\<forall>h\<in>set later. e + 10 \<le> hl_start_time h"
        using fallback_loop_starts_after [OF 2(4) True] .
      then show ?thesis by fastforce
    next
      case False
      then have d: "d < - 10" by simp
      have "\<forall>h\<in>set later. hl_start_time h \<le> e + 10
            \<and> hl_end_time h \<le> hl_start_time h + d"
        using fallback_loop_starts_before [OF 2(4) d] .
      moreover have "e + 10 + d < cur"
        using d 2(1) by (auto simp: min_def split: if_splits)
      ultimately show ?thesis by fastforce
    qed
    then have "\<forall>h0\<in>set (window_highlights cur e body i). \<forall>h\<in>set later. apart h0 h"
      using window_highlights_cases [of cur e body i] by (auto simp: apart_def)
    then show ?thesis
      using later 2(5) window_highlights_cases [of cur e body i]
      by (auto simp: sorted_wrt_append)
  qed
qed

subsection \<open>Both paths of the detection call\<close>

lemma apart_sym: "apart a b \<Longrightarrow> apart b a"
  by (auto simp: apart_def)

lemma sorted_wrt_apart_nth:
  assumes "sorted_wrt apart hs" "i < length hs" "j < length hs" "i \<noteq> j"
  shows "apart (hs ! i) (hs ! j)"
proof (cases "i < j")
  case True
  with assms show ?thesis by (simp add: sorted_wrt_iff_nth_less)
next
  case False
  with assms have "j < i" by simp
  with assms have "apart (hs ! j) (hs ! i)" by (simp add: sorted_wrt_iff_nth_less)
  then show ?thesis by (rule apart_sym)
qed

lemma select_highlights_apart: "sorted_wrt apart (select_highlights ss mc mn mx)"
  unfolding select_highlights_def by (rule select_loop_apart) simp_all

lemma select_highlights_length: "int (length (select_highlights ss mc mn mx)) \<le> max 0 mc"
  unfolding select_highlights_def by (rule select_loop_length) simp

lemma scored_path_Inr:
  assumes "scored_path provider T mc mn mx = Inr hs"
  obtains features ss where "extract_text_features T = Inr features"
    and "score_segments T features (extract_audio_features provider) = Inr ss"
    and "hs = select_highlights ss mc mn mx"
  using assms by (auto simp: scored_path_def and_then_eq_Inr Let_def)

lemma fallback_highlights_Inr:
  assumes "fallback_highlights T mc mn mx = Inr hs" and "T \<noteq> []"
  obtains last_end first_start where "seg_end (last T) = Some last_end"
    and "seg_start (hd T) = Some first_start" and "mc \<noteq> 0"
    and "fallback_loop T
           (min (real_of_int mx) (max (real_of_int mn) ((last_end - first_start) / real_of_int mc)))
           last_end (nat mc) 0 first_start = Inr hs"
  using assms
  by (auto simp: fallback_highlights_def and_then_eq_Inr Let_def getitem_def truediv_def
      split: option.splits if_splits)

lemma fallback_highlights_apart:
  assumes "fallback_highlights T mc mn mx = Inr hs"
  shows "sorted_wrt apart hs \<and> int (length hs) \<le> max 0 mc"
proof (cases "T = []")
  case True
  with assms show ?thesis by (simp add: fallback_highlights_def)
next
  case False
  from assms False show ?thesis
  proof (rule fallback_highlights_Inr)
    fix last_end first_start
    assume "fallback_loop T
           (min (real_of_int mx) (max (real_of_int mn) ((last_end - first_start) / real_of_int mc)))
           last_end (nat mc) 0 first_start = Inr hs"
    then show ?thesis
      using fallback_loop_apart fallback_loop_length by fastforce
  qed
qed

lemma detect_highlights_cases:
  assumes "detect_highlights provider T mc mn mx = Inr hs"
  obtains (scored) "scored_path provider T mc mn mx = Inr hs"
  | (fallback) e where "scored_path provider T mc mn mx = Inl e"
      and "fallback_highlights T mc mn mx = Inr hs"
  using assms by (auto simp: detect_highlights_def split: sum.splits)

subsection \<open>A transcript of two segments, evaluated\<close>

lemma text_features_example:
  "extract_text_features
     [\<lparr> seg_start = Some 5, seg_end = Some 15, seg_text = Some ''hello there'', seg_confidence = None \<rparr>,
      \<lparr> seg_start = Some 40, seg_end = Some 50, seg_text = Some ''hello again'', seg_confidence = None \<rparr>]
   = Inr \<lparr> engagement_scores = [0, 0], emotion_scores = [0, 0], question_scores = [0, 0],
           exclamation_scores = [0, 0], word_counts = [2, 2], speaking_rates = [1/5, 1/5] \<rparr>"
  by (simp add: feature_defs string_defs)

lemma detect_example:
  "detect_highlights (Inr empty_audio)
     [\<lparr> seg_start = Some 5, seg_end = Some 15, seg_text = Some ''hello there'', seg_confidence = None \<rparr>,
      \<lparr> seg_start = Some 40, seg_end = Some 50, seg_text = Some ''hello again'', seg_confidence = None \<rparr>]
     3 30 60
   = Inr [\<lparr> hl_start_time = 0, hl_end_time = 25, hl_text = ''hello there'', hl_score = Fin 0,
             hl_title = ''Hello There'' \<rparr>,
          \<lparr> hl_start_time = 30, hl_end_time = 60, hl_text = ''hello again'', hl_score = Fin 0,
             hl_title = ''Hello Again'' \<rparr>]"
  by (simp add: detect_highlights_def scored_path_def text_features_example scoring_defs
      selection_defs string_defs getitem_def)

subsection \<open>Durations\<close>





text \<open>With exact arithmetic the generators in float arithmetic are the generators of
  the sections above.\<close>

lemma repair_duration_fl_id: "repair_duration_fl (\<lambda>x. x) = repair_duration"
  by (intro ext) (simp add: repair_duration_fl_def repair_duration_def)

lemma select_loop_fl_id:
  "select_loop_fl (\<lambda>x. x) hs used mc mn mx segs = select_loop hs used mc mn mx segs"
  by (induction segs arbitrary: hs used) (simp_all add: repair_duration_fl_id split: prod.splits)

lemma select_highlights_fl_id: "select_highlights_fl (\<lambda>x. x) = select_highlights"
  by (intro ext) (simp add: select_highlights_fl_def select_highlights_def select_loop_fl_id)

lemma fallback_loop_fl_id:
  "fallback_loop_fl (\<lambda>x. x) T d L n i cur = fallback_loop T d L n i cur"
  by (induction n arbitrary: i cur) (simp_all add: window_highlights_def Let_def cong: if_cong)

lemma fallback_highlights_fl_id: "fallback_highlights_fl (\<lambda>x. x) = fallback_highlights"
  by (intro ext)
    (simp add: fallback_highlights_fl_def fallback_highlights_def fallback_loop_fl_id)






subsection \<open>A transcript that sends the call to the fallback, evaluated\<close>

lemma fallback_example:
  "detect_highlights (Inr empty_audio)
     [\<lparr> seg_start = Some 0, seg_end = Some 50, seg_text = None, seg_confidence = None \<rparr>,
      \<lparr> seg_start = Some 50, seg_end = Some 60, seg_text = Some ''c'', seg_confidence = None \<rparr>]
     2 25 40
   = Inr [\<lparr> hl_start_time = 40, hl_end_time = 60, hl_text = ''c'', hl_score = Fin 0.5,
             hl_title = ''Highlight 2'' \<rparr>]"
  by (simp add: detect_highlights_def scored_path_def extract_text_features_def
      fallback_highlights_def getitem_def truediv_def string_defs str_nat.simps
      eval_nat_numeral)

subsection \<open>Text features\<close>

lemma startswith_prefix: "startswith s p \<longleftrightarrow> prefix p s"
  by (induction s p rule: startswith.induct) auto

lemma str_contains_sublist: "str_contains s p \<longleftrightarrow> sublist p s"
  by (induction s) (simp_all add: startswith_prefix sublist_Cons_right)

lemma keyword_score_length:
  "keyword_score ks t = int (length (filter (str_contains t) ks))"
  unfolding keyword_score_def by (induction ks) simp_all

lemma keyword_score_card:
  assumes "distinct ks"
  shows "keyword_score ks t = int (card {k \<in> set ks. sublist k t})"
proof -
  have "{k \<in> set ks. sublist k t} = {k. str_contains t k} \<inter> set ks"
    by (auto simp: str_contains_sublist)
  then show ?thesis
    using assms by (simp add: keyword_score_length distinct_length_filter)
qed

lemma distinct_engagement_keywords: "distinct engagement_keywords"
  by (simp add: engagement_keywords_def)

lemma distinct_emotion_keywords: "distinct emotion_keywords"
  by (simp add: emotion_keywords_def)

lemma length_engagement_keywords: "length engagement_keywords = 47"
  by (simp add: engagement_keywords_def)

lemma length_emotion_keywords: "length emotion_keywords = 12"
  by (simp add: emotion_keywords_def)

lemma extract_loop_Cons_Inr:
  assumes "extract_loop f (s # T) = Inr f'"
  shows "well_formed s \<and>
     extract_loop
       \<lparr> engagement_scores = engagement_scores f @ [keyword_score engagement_keywords (lowered_text s)],
         emotion_scores = emotion_scores f @ [keyword_score emotion_keywords (lowered_text s)],
         question_scores = question_scores f @ [count_char (lowered_text s) CHR ''?''],
         exclamation_scores = exclamation_scores f @ [count_char (lowered_text s) CHR ''!''],
         word_counts = word_counts f @ [int (length (split (lowered_text s)))],
         speaking_rates = speaking_rates f @
           [real_of_int (int (length (split (lowered_text s)))) / max (segment_duration_of s) 1] \<rparr>
       T = Inr f'"
  using assms
  by (auto simp: and_then_eq_Inr getitem_def truediv_def Let_def well_formed_def lowered_text_def
      segment_duration_of_def split: option.splits if_splits)

lemma extract_loop_Inr:
  "extract_loop f T = Inr f' \<Longrightarrow>
     (\<forall>s\<in>set T. well_formed s)
     \<and> engagement_scores f' = engagement_scores f
          @ map (\<lambda>s. keyword_score engagement_keywords (lowered_text s)) T
     \<and> emotion_scores f' = emotion_scores f
          @ map (\<lambda>s. keyword_score emotion_keywords (lowered_text s)) T
     \<and> question_scores f' = question_scores f
          @ map (\<lambda>s. count_char (lowered_text s) CHR ''?'') T
     \<and> exclamation_scores f' = exclamation_scores f
          @ map (\<lambda>s. count_char (lowered_text s) CHR ''!'') T
     \<and> word_counts f' = word_counts f
          @ map (\<lambda>s. int (length (split (lowered_text s)))) T
     \<and> speaking_rates f' = speaking_rates f
          @ map (\<lambda>s. real_of_int (int (length (split (lowered_text s))))
                       / max (segment_duration_of s) 1) T"
proof (induction T arbitrary: f)
  case Nil
  then show ?case by simp
next
  case (Cons s T)
  from extract_loop_Cons_Inr [OF Cons.prems] Cons.IH show ?case
    by fastforce
qed

lemma extract_text_features_Inr:
  assumes "extract_text_features T = Inr f"
  shows "(\<forall>s\<in>set T. well_formed s)"
    and "engagement_scores f = map (\<lambda>s. keyword_score engagement_keywords (lowered_text s)) T"
    and "emotion_scores f = map (\<lambda>s. keyword_score emotion_keywords (lowered_text s)) T"
    and "question_scores f = map (\<lambda>s. count_char (lowered_text s) CHR ''?'') T"
    and "exclamation_scores f = map (\<lambda>s. count_char (lowered_text s) CHR ''!'') T"
    and "word_counts f = map (\<lambda>s. int (length (split (lowered_text s)))) T"
    and "speaking_rates f = map (\<lambda>s. real_of_int (int (length (split (lowered_text s))))
                       / max (segment_duration_of s) 1) T"
  using extract_loop_Inr [OF assms [unfolded extract_text_features_def]] by simp_all

lemma extract_loop_total:
  "\<forall>s\<in>set T. well_formed s \<Longrightarrow> \<exists>f'. extract_loop f T = Inr f'"
proof (induction T arbitrary: f)
  case Nil
  then show ?case by simp
next
  case (Cons s T)
  then obtain t a b where "seg_text s = Some t" "seg_start s = Some a" "seg_end s = Some b"
    by (auto simp: well_formed_def)
  moreover have "max (b - a) 1 \<noteq> 0" by simp
  ultimately show ?case using Cons by (simp add: getitem_def truediv_def Let_def del: max_less_iff_conj)
qed


lemma keyword_example:
  "extract_text_features
     [\<lparr> seg_start = Some 0, seg_end = Some 4, seg_text = Some ''Wow wow, love love'',
        seg_confidence = None \<rparr>]
   = Inr \<lparr> engagement_scores = [1], emotion_scores = [1], question_scores = [0],
           exclamation_scores = [0], word_counts = [4], speaking_rates = [1] \<rparr>"
  by (simp add: feature_defs string_defs)

subsection \<open>Scores\<close>

lemma sum_list_map_nth: "sum_list (map f xs) = (\<Sum>j<length xs. f (xs ! j))"
proof (induction xs rule: rev_induct)
  case Nil
  then show ?case by simp
next
  case (snoc x xs)
  have "(\<Sum>j<length xs. f ((xs @ [x]) ! j)) = (\<Sum>j<length xs. f (xs ! j))"
    by (rule sum.cong) (simp_all add: nth_append)
  with snoc show ?case by simp
qed

lemma mean_spec_mean: "mean xs = spec_mean xs"
  using sum_list_map_nth [of "\<lambda>x. x" xs] by (simp add: mean_def spec_mean_def)

lemma std_spec_std: "std xs = spec_std xs"
proof -
  have "mean (map (\<lambda>x. \<bar>x - mean xs\<bar> ^ 2) xs)
        = (\<Sum>j<length xs. (xs ! j - spec_mean xs) ^ 2) / real (length xs)"
    unfolding mean_def [of "map (\<lambda>x. \<bar>x - mean xs\<bar> ^ 2) xs"] sum_list_map_nth
    by (simp add: mean_spec_mean)
  then show ?thesis
    by (simp add: std_def spec_std_def)
qed

lemma standardize_nth: "i < length xs \<Longrightarrow> standardize xs ! i = z xs i"
  by (simp add: standardize_def z_def mean_spec_mean std_spec_std)

lemma length_standardize [simp]: "length (standardize xs) = length xs"
  by (simp add: standardize_def)

lemma score_loop_Inr:
  "score_loop en em q x r audio i T = Inr ss \<Longrightarrow>
   length ss = length T
   \<and> (\<forall>j<length T. score_segment en em q x r audio (i + j) (T ! j) = Inr (ss ! j))"
proof (induction T arbitrary: i ss)
  case Nil
  then show ?case by simp
next
  case (Cons s T)
  from Cons.prems obtain a rest where a: "score_segment en em q x r audio i s = Inr a"
    and rest: "score_loop en em q x r audio (Suc i) T = Inr rest" and ss: "ss = a # rest"
    by (auto simp: and_then_eq_Inr)
  from Cons.IH [OF rest] a ss show ?case
    by (auto simp: nth_Cons split: nat.splits)
qed

lemma score_loop_total:
  "(\<forall>j<length T. \<exists>s. score_segment en em q x r audio (i + j) (T ! j) = Inr s) \<Longrightarrow>
   \<exists>ss. score_loop en em q x r audio i T = Inr ss"
proof (induction T arbitrary: i)
  case Nil
  then show ?case by simp
next
  case (Cons s T)
  from Cons.prems have "\<exists>a. score_segment en em q x r audio i s = Inr a" by fastforce
  moreover have "\<exists>ss. score_loop en em q x r audio (Suc i) T = Inr ss"
  proof (rule Cons.IH, intro allI impI)
    fix j assume "j < length T"
    with Cons.prems show "\<exists>s. score_segment en em q x r audio (Suc i + j) (T ! j) = Inr s"
      by (auto dest: spec [of _ "Suc j"])
  qed
  ultimately show ?case by auto
qed

lemma text_score_Inr:
  assumes "i < length en" "i < length em" "i < length q" "i < length x" "i < length r"
  shows "text_score en em q x r i
         = Inr (en ! i * 0.3 + em ! i * 0.2 + real_of_int (q ! i) * 0.1
                + real_of_int (x ! i) * 0.1 + min (r ! i) 2.0 * 0.1)"
  using assms by (simp add: text_score_def getindex_def)

lemma score_segment_Inr:
  assumes "i < length en" "i < length em" "i < length q" "i < length x" "i < length r"
    and "well_formed s"
  shows "\<exists>sc. score_segment en em q x r audio i s = Inr sc
     \<and> ss_score sc =
         (case energy_score audio s of
            None \<Rightarrow> Fin (en ! i * 0.3 + em ! i * 0.2 + real_of_int (q ! i) * 0.1
                          + real_of_int (x ! i) * 0.1 + min (r ! i) 2.0 * 0.1)
          | Some energy \<Rightarrow>
              fadd (en ! i * 0.3 + em ! i * 0.2 + real_of_int (q ! i) * 0.1
                    + real_of_int (x ! i) * 0.1 + min (r ! i) 2.0 * 0.1) (fmul energy 0.2))
     \<and> Some (ss_start_time sc) = seg_start s \<and> Some (ss_end_time sc) = seg_end s
     \<and> Some (ss_text sc) = seg_text s"
proof -
  from assms(6) obtain t a b where "seg_text s = Some t" "seg_start s = Some a"
    "seg_end s = Some b"
    by (auto simp: well_formed_def)
  then show ?thesis
    unfolding score_segment_def text_score_Inr [OF assms(1-5)]
    by (cases "energy_score audio s") (simp_all add: getitem_def)
qed


lemma extract_text_features_lengths:
  assumes "extract_text_features T = Inr f"
  shows "length (engagement_scores f) = length T" "length (emotion_scores f) = length T"
    "length (question_scores f) = length T" "length (exclamation_scores f) = length T"
    "length (word_counts f) = length T" "length (speaking_rates f) = length T"
  using extract_text_features_Inr(2-7) [OF assms] by simp_all

lemma score_segments_Inr:
  assumes "extract_text_features T = Inr f"
  shows "\<exists>ss. score_segments T f audio = Inr ss \<and> length ss = length T
     \<and> (\<forall>i<length T.
          ss_score (ss ! i) =
            (case energy_score audio (T ! i) of
               None \<Rightarrow> Fin (if 1 < length T then spec_text_score f i else raw_text_score f i)
             | Some energy \<Rightarrow>
                 fadd (if 1 < length T then spec_text_score f i else raw_text_score f i)
                   (fmul energy 0.2))
          \<and> Some (ss_start_time (ss ! i)) = seg_start (T ! i)
          \<and> Some (ss_end_time (ss ! i)) = seg_end (T ! i)
          \<and> Some (ss_text (ss ! i)) = seg_text (T ! i))"
proof -
  note len = extract_text_features_lengths [OF assms]
  note wf = extract_text_features_Inr(1) [OF assms]
  define en where "en = (if 1 < length T then standardize (map real_of_int (engagement_scores f))
                         else map real_of_int (engagement_scores f))"
  define em where "em = (if 1 < length T then standardize (map real_of_int (emotion_scores f))
                         else map real_of_int (emotion_scores f))"
  define r where "r = (if 1 < length T then standardize (speaking_rates f)
                         else speaking_rates f)"
  have lens: "length en = length T" "length em = length T" "length r = length T"
    using len by (simp_all add: en_def em_def r_def)
  have loop: "score_segments T f audio
      = score_loop en em (question_scores f) (exclamation_scores f) r audio 0 T"
    using len by (simp add: score_segments_def Let_def en_def em_def r_def)
  have val: "en ! i * 0.3 + em ! i * 0.2 + real_of_int (question_scores f ! i) * 0.1
                + real_of_int (exclamation_scores f ! i) * 0.1 + min (r ! i) 2.0 * 0.1
        = (if 1 < length T then spec_text_score f i else raw_text_score f i)"
    if "i < length T" for i
    using that len
    by (simp add: en_def em_def r_def spec_text_score_def raw_text_score_def standardize_nth
        mult.commute)
  have seg: "\<exists>sc. score_segment en em (question_scores f) (exclamation_scores f) r audio i (T ! i)
               = Inr sc
     \<and> ss_score sc =
         (case energy_score audio (T ! i) of
            None \<Rightarrow> Fin (if 1 < length T then spec_text_score f i else raw_text_score f i)
          | Some energy \<Rightarrow>
              fadd (if 1 < length T then spec_text_score f i else raw_text_score f i)
                (fmul energy 0.2))
     \<and> Some (ss_start_time sc) = seg_start (T ! i) \<and> Some (ss_end_time sc) = seg_end (T ! i)
     \<and> Some (ss_text sc) = seg_text (T ! i)"
    if "i < length T" for i
  proof -
    have "well_formed (T ! i)" using wf that by simp
    from score_segment_Inr [of i en em "question_scores f" "exclamation_scores f" r "T ! i" audio]
      this that lens len
    show ?thesis unfolding val [OF that] by simp
  qed
  then have "\<exists>ss. score_loop en em (question_scores f) (exclamation_scores f) r audio 0 T = Inr ss"
    by (intro score_loop_total) auto
  then obtain ss where ss: "score_loop en em (question_scores f) (exclamation_scores f) r audio 0 T
       = Inr ss" ..
  from score_loop_Inr [OF ss] seg have "length ss = length T" and
    "\<forall>i<length T.
          ss_score (ss ! i) =
            (case energy_score audio (T ! i) of
               None \<Rightarrow> Fin (if 1 < length T then spec_text_score f i else raw_text_score f i)
             | Some energy \<Rightarrow>
                 fadd (if 1 < length T then spec_text_score f i else raw_text_score f i)
                   (fmul energy 0.2))
          \<and> Some (ss_start_time (ss ! i)) = seg_start (T ! i)
          \<and> Some (ss_end_time (ss ! i)) = seg_end (T ! i)
          \<and> Some (ss_text (ss ! i)) = seg_text (T ! i)"
    by fastforce+
  with ss loop show ?thesis by simp
qed

subsection \<open>The audio term\<close>

lemma searchsorted_le_length: "searchsorted ts v \<le> length ts"
  by (simp add: searchsorted_def length_takeWhile_le)

lemma energy_score_absent:
  "rms_energy audio = None \<Longrightarrow> energy_score audio s = None"
  by (simp add: energy_score_def)

lemma energy_score_empty_series:
  "time_axis audio = None \<or> time_axis audio = Some [] \<or> rms_energy audio = Some [] \<Longrightarrow>
   energy_score audio s = None"
  by (auto simp: energy_score_def split: option.splits)

lemma energy_score_start_out_of_range:
  "rms_energy audio = Some rms \<Longrightarrow> time_axis audio = Some ts \<Longrightarrow> seg_start s = Some a \<Longrightarrow>
   length rms \<le> searchsorted ts a \<Longrightarrow> energy_score audio s = None"
  by (auto simp: energy_score_def Let_def split: option.splits)

lemma energy_score_in_range:
  assumes "rms_energy audio = Some rms" "time_axis audio = Some ts"
    and "seg_start s = Some a" "seg_end s = Some b"
    and "searchsorted ts a < searchsorted ts b" "searchsorted ts b \<le> length rms"
  shows "energy_score audio s
         = Some (Fin (min (spec_mean (slice rms (searchsorted ts a) (searchsorted ts b)) * 10) 1))"
proof -
  have "ts \<noteq> []" using assms(5) searchsorted_le_length [of ts b] by auto
  moreover have "rms \<noteq> []" using assms(5,6) by auto
  moreover have "slice rms (searchsorted ts a) (searchsorted ts b) \<noteq> []"
    using assms(5,6) by (simp add: slice_def)
  ultimately show ?thesis
    using assms
    by (simp add: energy_score_def Let_def np_mean_def mean_spec_mean min_def)
qed

lemma energy_score_empty_range:
  assumes "rms_energy audio = Some rms" "time_axis audio = Some ts"
    and "seg_start s = Some a" "seg_end s = Some b"
    and "searchsorted ts a < length rms" "searchsorted ts b \<le> searchsorted ts a"
    and "ts \<noteq> []"
  shows "energy_score audio s = Some NaN"
proof -
  have "slice rms (searchsorted ts a) (searchsorted ts b) = []"
    using assms(6) by (simp add: slice_def)
  then show ?thesis
    using assms by (auto simp: energy_score_def Let_def np_mean_def)
qed

subsection \<open>Scores where the audio term is a number\<close>

lemma composite_score_where_defined:
  assumes "2 \<le> length transcription"
    and "extract_text_features transcription = Inr features"
    and "i < length transcription"
  shows "\<exists>scored. score_segments transcription features audio = Inr scored
     \<and> length scored = length transcription
     \<and> (energy_score audio (transcription ! i) = None \<longrightarrow>
          ss_score (scored ! i) = Fin (spec_text_score features i))
     \<and> (rms_energy audio = None \<longrightarrow>
          ss_score (scored ! i) = Fin (spec_text_score features i))
     \<and> (\<forall>rms ts a b.
          rms_energy audio = Some rms \<and> time_axis audio = Some ts
          \<and> seg_start (transcription ! i) = Some a \<and> seg_end (transcription ! i) = Some b
          \<and> searchsorted ts a < searchsorted ts b \<and> searchsorted ts b \<le> length rms \<longrightarrow>
          ss_score (scored ! i)
          = Fin (spec_text_score features i
                 + 0.2 * min (spec_mean (slice rms (searchsorted ts a) (searchsorted ts b)) * 10)
                           1.0))"
proof -
  from score_segments_Inr [OF assms(2), of audio] obtain scored
    where scored: "score_segments transcription features audio = Inr scored"
      and len: "length scored = length transcription"
      and score: "ss_score (scored ! i) =
            (case energy_score audio (transcription ! i) of
               None \<Rightarrow> Fin (spec_text_score features i)
             | Some energy \<Rightarrow> fadd (spec_text_score features i) (fmul energy 0.2))"
    using assms(1,3) by fastforce
  have none: "ss_score (scored ! i) = Fin (spec_text_score features i)"
    if "energy_score audio (transcription ! i) = None"
    using score that by simp
  have audio: "ss_score (scored ! i)
          = Fin (spec_text_score features i
                 + 0.2 * min (spec_mean (slice rms (searchsorted ts a) (searchsorted ts b)) * 10)
                           1.0)"
    if "rms_energy audio = Some rms" "time_axis audio = Some ts"
      "seg_start (transcription ! i) = Some a" "seg_end (transcription ! i) = Some b"
      "searchsorted ts a < searchsorted ts b" "searchsorted ts b \<le> length rms"
    for rms ts a b
    using score energy_score_in_range [OF that] by (simp add: mult.commute)
  show ?thesis
  proof (intro exI [of _ scored] conjI allI impI)
    show "score_segments transcription features audio = Inr scored" by (rule scored)
    show "length scored = length transcription" by (rule len)
    show "ss_score (scored ! i) = Fin (spec_text_score features i)"
      if "energy_score audio (transcription ! i) = None"
      using that by (rule none)
    show "ss_score (scored ! i) = Fin (spec_text_score features i)"
      if "rms_energy audio = None"
      using that by (intro none energy_score_absent)
    show "ss_score (scored ! i)
          = Fin (spec_text_score features i
                 + 0.2 * min (spec_mean (slice rms (searchsorted ts a) (searchsorted ts b)) * 10)
                           1.0)"
      if "rms_energy audio = Some rms \<and> time_axis audio = Some ts
          \<and> seg_start (transcription ! i) = Some a \<and> seg_end (transcription ! i) = Some b
          \<and> searchsorted ts a < searchsorted ts b \<and> searchsorted ts b \<le> length rms"
      for rms ts a b
      using that by (intro audio) simp_all
  qed
qed

lemma single_segment_scores:
  "let segment = \<lparr> seg_start = Some a, seg_end = Some b, seg_text = Some t, seg_confidence = c \<rparr>;
       word_count = int (length (split (lower t)));
       features =
         \<lparr> engagement_scores = [keyword_score engagement_keywords (lower t)],
           emotion_scores = [keyword_score emotion_keywords (lower t)],
           question_scores = [count_char (lower t) CHR ''?''],
           exclamation_scores = [count_char (lower t) CHR ''!''],
           word_counts = [word_count],
           speaking_rates = [real_of_int word_count / max (b - a) 1] \<rparr>;
       raw = 0.3 * real_of_int (keyword_score engagement_keywords (lower t))
             + 0.2 * real_of_int (keyword_score emotion_keywords (lower t))
             + 0.1 * real_of_int (count_char (lower t) CHR ''?'')
             + 0.1 * real_of_int (count_char (lower t) CHR ''!'')
             + 0.1 * min (real_of_int word_count / max (b - a) 1) 2.0
   in extract_text_features [segment] = Inr features
      \<and> max (b - a) 1 \<noteq> 0
      \<and> score_segments [segment] features audio
          = Inr [\<lparr> ss_start_time = a, ss_end_time = b, ss_text = t,
                   ss_score = (case energy_score audio segment of
                                 None \<Rightarrow> Fin raw
                               | Some energy \<Rightarrow> fadd raw (fmul energy 0.2)),
                   ss_confidence = (case c of None \<Rightarrow> 0 | Some v \<Rightarrow> v) \<rparr>]"
proof -
  have nz: "max (b - a) 1 \<noteq> 0" by simp
  show ?thesis
    unfolding Let_def
  proof (intro conjI)
    show "extract_text_features
           [\<lparr> seg_start = Some a, seg_end = Some b, seg_text = Some t, seg_confidence = c \<rparr>]
          = Inr \<lparr> engagement_scores = [keyword_score engagement_keywords (lower t)],
           emotion_scores = [keyword_score emotion_keywords (lower t)],
           question_scores = [count_char (lower t) CHR ''?''],
           exclamation_scores = [count_char (lower t) CHR ''!''],
           word_counts = [int (length (split (lower t)))],
           speaking_rates = [real_of_int (int (length (split (lower t)))) / max (b - a) 1] \<rparr>"
      using nz by (simp add: extract_text_features_def getitem_def truediv_def Let_def
          del: max_less_iff_conj)
    show "max (b - a) 1 \<noteq> 0" by (rule nz)
    show "score_segments
           [\<lparr> seg_start = Some a, seg_end = Some b, seg_text = Some t, seg_confidence = c \<rparr>]
           \<lparr> engagement_scores = [keyword_score engagement_keywords (lower t)],
             emotion_scores = [keyword_score emotion_keywords (lower t)],
             question_scores = [count_char (lower t) CHR ''?''],
             exclamation_scores = [count_char (lower t) CHR ''!''],
             word_counts = [int (length (split (lower t)))],
             speaking_rates = [real_of_int (int (length (split (lower t)))) / max (b - a) 1] \<rparr>
           audio
          = Inr [\<lparr> ss_start_time = a, ss_end_time = b, ss_text = t,
                   ss_score = (case energy_score audio
                       \<lparr> seg_start = Some a, seg_end = Some b, seg_text = Some t, seg_confidence = c \<rparr> of
                                 None \<Rightarrow> Fin (0.3 * real_of_int (keyword_score engagement_keywords (lower t))
             + 0.2 * real_of_int (keyword_score emotion_keywords (lower t))
             + 0.1 * real_of_int (count_char (lower t) CHR ''?'')
             + 0.1 * real_of_int (count_char (lower t) CHR ''!'')
             + 0.1 * min (real_of_int (int (length (split (lower t)))) / max (b - a) 1) 2.0)
                               | Some energy \<Rightarrow> fadd (0.3 * real_of_int (keyword_score engagement_keywords (lower t))
             + 0.2 * real_of_int (keyword_score emotion_keywords (lower t))
             + 0.1 * real_of_int (count_char (lower t) CHR ''?'')
             + 0.1 * real_of_int (count_char (lower t) CHR ''!'')
             + 0.1 * min (real_of_int (int (length (split (lower t)))) / max (b - a) 1) 2.0) (fmul energy 0.2)),
                   ss_confidence = (case c of None \<Rightarrow> 0 | Some v \<Rightarrow> v) \<rparr>]"
      by (cases "energy_score audio
                   \<lparr> seg_start = Some a, seg_end = Some b, seg_text = Some t, seg_confidence = c \<rparr>")
        (simp_all add: score_segments_def score_segment_def text_score_def getindex_def
          getitem_def mult.commute split: option.splits)
  qed
qed

subsection \<open>Transcripts with and without a missing key, evaluated\<close>

lemma single_wow_features:
  "extract_text_features
     [\<lparr> seg_start = Some 0, seg_end = Some 40, seg_text = Some ''wow'', seg_confidence = None \<rparr>]
   = Inr \<lparr> engagement_scores = [1], emotion_scores = [0], question_scores = [0],
           exclamation_scores = [0], word_counts = [1], speaking_rates = [1 / 40] \<rparr>"
  by (simp add: feature_defs string_defs)

lemma missing_text_features:
  "extract_text_features
     [\<lparr> seg_start = Some 0, seg_end = Some 50, seg_text = None, seg_confidence = None \<rparr>,
      \<lparr> seg_start = Some 50, seg_end = Some 60, seg_text = Some ''c'', seg_confidence = None \<rparr>]
   = Inl (KeyError ''text'')"
  by (simp add: extract_text_features_def getitem_def)

lemma missing_text_propagates:
  "detect_highlights (Inr empty_audio)
     [\<lparr> seg_start = Some 0, seg_end = Some 10, seg_text = None, seg_confidence = None \<rparr>]
     1 30 60
   = Inl (KeyError ''text'')"
  by (simp add: detect_highlights_def scored_path_def extract_text_features_def
      fallback_highlights_def getitem_def truediv_def)

subsection \<open>Windows without text\<close>

lemma window_text_none_inside:
  "\<forall>segment\<in>set T. \<exists>s e. seg_start segment = Some s \<and> seg_end segment = Some e
      \<and> \<not> (s \<ge> start_time \<and> e \<le> end_time) \<Longrightarrow>
   window_text start_time end_time acc T = Inr acc"
  by (induction T arbitrary: acc) (auto simp: getitem_def)

lemma strip_Nil [simp]: "strip [] = []"
  by (simp add: strip_def)

lemma window_highlights_empty: "strip body = [] \<Longrightarrow> window_highlights s e body i = []"
  by (simp add: window_highlights_def)

lemma and_then_Inr_id: "and_then m (\<lambda>x. Inr x) = m"
  by (cases m) simp_all

lemma skip_example:
  "fallback_highlights
     [\<lparr> seg_start = Some 0, seg_end = Some 10, seg_text = Some ''a'', seg_confidence = None \<rparr>,
      \<lparr> seg_start = Some 10, seg_end = Some 75, seg_text = Some ''b'', seg_confidence = None \<rparr>,
      \<lparr> seg_start = Some 80, seg_end = Some 90, seg_text = Some ''c'', seg_confidence = None \<rparr>]
     3 20 40
   = Inr [\<lparr> hl_start_time = 0, hl_end_time = 30, hl_text = ''a'', hl_score = Fin 0.5,
             hl_title = ''Highlight 1'' \<rparr>,
          \<lparr> hl_start_time = 80, hl_end_time = 90, hl_text = ''c'', hl_score = Fin 0.5,
             hl_title = ''Highlight 3'' \<rparr>]"
  by (simp add: fallback_highlights_def getitem_def truediv_def string_defs str_nat.simps
      eval_nat_numeral)

subsection \<open>Characters, words and titles\<close>

lemma lower_char_cases: "lower_char c = c \<or> (isupper c \<and> islower (lower_char c))"
proof (cases "c \<in> set ascii_uppercase")
  case True
  then show ?thesis
    by (auto simp: isupper_def islower_def lower_char_def ascii_uppercase_def ascii_lowercase_def)
next
  case False
  then have "map_of (zip ascii_uppercase ascii_lowercase) c = None"
    by (subst map_of_zip_is_None) (simp_all add: ascii_uppercase_def ascii_lowercase_def)
  then show ?thesis by (simp add: lower_char_def)
qed

lemma upper_char_cases: "upper_char c = c \<or> (islower c \<and> isupper (upper_char c))"
proof (cases "c \<in> set ascii_lowercase")
  case True
  then show ?thesis
    by (auto simp: isupper_def islower_def upper_char_def ascii_uppercase_def ascii_lowercase_def)
next
  case False
  then have "map_of (zip ascii_lowercase ascii_uppercase) c = None"
    by (subst map_of_zip_is_None) (simp_all add: ascii_uppercase_def ascii_lowercase_def)
  then show ?thesis by (simp add: upper_char_def)
qed

lemma letter_not_space: "islower c \<or> isupper c \<Longrightarrow> \<not> isspace c"
  by (auto simp: islower_def isupper_def isspace_def whitespace_def ascii_lowercase_def
      ascii_uppercase_def)


lemma isspace_lower_char [simp]: "isspace (lower_char c) = isspace c"
  using lower_char_cases [of c] letter_not_space [of c] letter_not_space [of "lower_char c"]
  by auto

lemma isspace_upper_char [simp]: "isspace (upper_char c) = isspace c"
  using upper_char_cases [of c] letter_not_space [of c] letter_not_space [of "upper_char c"]
  by auto








lemma length_title_from [simp]: "length (title_from b s) = length s"
  by (induction s arbitrary: b) auto

lemma title_from_Nil_iff [simp]: "title_from b s = [] \<longleftrightarrow> s = []"
  by (cases s) auto





lemma split_Nil [simp]: "split [] = []"
  by (simp add: split_def)


























subsection \<open>Texts of the selected highlights\<close>




subsection \<open>The empty transcript\<close>

text \<open>
  C7. For a transcript without segments both the detection call and the fallback
  generator return the empty list of highlights; neither raises, whatever the audio
  provider did and whatever the three numeric parameters are.
\<close>

theorem empty_transcript_returns_empty:
  "detect_highlights provider [] max_clips min_duration max_duration = Inr []
   \<and> fallback_highlights [] max_clips min_duration max_duration = Inr []"
  by (simp add: detect_highlights_def scored_path_def extract_text_features_def
      score_segments_def select_highlights_def sorted_descending_def fallback_highlights_def)

subsection \<open>Disjoint highlights, at most \<open>max_clips\<close> of them\<close>

text \<open>
  C1. Whatever path produced it, the list a detection call returns, and likewise
  the list that the selection or the fallback generator returns on its own, has no two
  highlights whose intervals \<open>[start_time, end_time)\<close> overlap: for all positions
  \<open>i \<noteq> j\<close>, \<open>start\<^sub>i \<ge> end\<^sub>j\<close> or \<open>start\<^sub>j \<ge> end\<^sub>i\<close>. The list has at most
  \<open>max_clips\<close> elements; for a negative \<open>max_clips\<close> the list is empty, so the bound
  is stated for \<open>max_clips \<ge> 0\<close>. Nothing is assumed about the transcript, the audio
  features or the two durations.
\<close>

theorem detection_non_overlapping_bounded:
  assumes "detect_highlights provider transcription max_clips min_duration max_duration
             = Inr highlights
           \<or> fallback_highlights transcription max_clips min_duration max_duration
             = Inr highlights
           \<or> highlights = select_highlights scored_segments max_clips min_duration max_duration"
  shows "(\<forall>i<length highlights. \<forall>j<length highlights. i \<noteq> j \<longrightarrow>
            hl_start_time (highlights ! i) \<ge> hl_end_time (highlights ! j)
            \<or> hl_start_time (highlights ! j) \<ge> hl_end_time (highlights ! i))
         \<and> (0 \<le> max_clips \<longrightarrow> int (length highlights) \<le> max_clips)"
proof -
  have detect: "sorted_wrt apart highlights \<and> int (length highlights) \<le> max 0 max_clips"
    if "detect_highlights provider transcription max_clips min_duration max_duration
          = Inr highlights"
    using that
  proof (cases rule: detect_highlights_cases)
    case scored
    then show ?thesis
      using select_highlights_apart select_highlights_length
      by (auto elim!: scored_path_Inr)
  next
    case (fallback e)
    then show ?thesis by (simp add: fallback_highlights_apart)
  qed
  have "sorted_wrt apart highlights \<and> int (length highlights) \<le> max 0 max_clips"
    using assms detect fallback_highlights_apart select_highlights_apart
      select_highlights_length
    by blast
  then show ?thesis
    using sorted_wrt_apart_nth [of highlights] by (auto simp: apart_def)
qed

theorem detection_non_overlapping_bounded_witness:
  "detect_highlights (Inr empty_audio)
     [\<lparr> seg_start = Some 5, seg_end = Some 15, seg_text = Some ''hello there'', seg_confidence = None \<rparr>,
      \<lparr> seg_start = Some 40, seg_end = Some 50, seg_text = Some ''hello again'', seg_confidence = None \<rparr>]
     3 30 60
   = Inr [\<lparr> hl_start_time = 0, hl_end_time = 25, hl_text = ''hello there'', hl_score = Fin 0,
             hl_title = ''Hello There'' \<rparr>,
          \<lparr> hl_start_time = 30, hl_end_time = 60, hl_text = ''hello again'', hl_score = Fin 0,
             hl_title = ''Hello Again'' \<rparr>]
   \<and> (30::real) \<ge> 25 \<and> (0::int) \<le> 3 \<and> int (length [0::nat, 1]) \<le> 3"
  using detection_non_overlapping_bounded [OF disjI1, OF detect_example] detect_example
  by simp

subsection \<open>Durations of the highlights\<close>




subsection \<open>Keyword scores\<close>

text \<open>
  C3, as stated, fails: the scores do not count occurrences. In the text
  \<open>"Wow wow, love love"\<close> the phrase \<open>wow\<close> occurs twice and \<open>love\<close> occurs twice,
  and both scores are 1.
\<close>

theorem keyword_scores_counterexample:
  "extract_text_features
     [\<lparr> seg_start = Some 0, seg_end = Some 4, seg_text = Some ''Wow wow, love love'',
        seg_confidence = None \<rparr>]
   = Inr \<lparr> engagement_scores = [1], emotion_scores = [1], question_scores = [0],
           exclamation_scores = [0], word_counts = [4], speaking_rates = [1] \<rparr>
   \<and> lower ''Wow wow, love love'' = ''wow wow, love love''
   \<and> occurrence_score engagement_keywords ''wow wow, love love'' = 2
   \<and> occurrence_score emotion_keywords ''wow wow, love love'' = 2"
  using keyword_example
  by (simp add: occurrence_score_def engagement_keywords_def emotion_keywords_def string_defs)

text \<open>
  C3, amended. For every segment of the transcript, \<open>engagement_score\<close> is the number of
  phrases of the engagement keyword list (47 distinct phrases) that occur in the
  lower-cased text at least once, as a contiguous substring, and \<open>emotion_score\<close> is
  the number of phrases of the emotion keyword list (12 distinct phrases) that do: a
  phrase contributes 1 however often it occurs.
\<close>

theorem keyword_scores_amended:
  assumes "extract_text_features transcription = Inr features"
    and "i < length transcription"
  shows "\<exists>t. seg_text (transcription ! i) = Some t
     \<and> engagement_scores features ! i
         = int (card {k \<in> set engagement_keywords. sublist k (lower t)})
     \<and> emotion_scores features ! i
         = int (card {k \<in> set emotion_keywords. sublist k (lower t)})"
proof -
  have "well_formed (transcription ! i)"
    using extract_text_features_Inr(1) [OF assms(1)] assms(2) by simp
  then obtain t where t: "seg_text (transcription ! i) = Some t"
    by (auto simp: well_formed_def)
  then have "lowered_text (transcription ! i) = lower t"
    by (simp add: lowered_text_def)
  then show ?thesis
    using t assms(2) extract_text_features_Inr(2,3) [OF assms(1)]
    by (simp add: keyword_score_card distinct_engagement_keywords distinct_emotion_keywords)
qed

theorem keyword_scores_amended_witness:
  "extract_text_features
     [\<lparr> seg_start = Some 0, seg_end = Some 4, seg_text = Some ''Wow wow, love love'',
        seg_confidence = None \<rparr>]
   = Inr \<lparr> engagement_scores = [1], emotion_scores = [1], question_scores = [0],
           exclamation_scores = [0], word_counts = [4], speaking_rates = [1] \<rparr>
   \<and> (0::nat) < length [\<lparr> seg_start = Some 0, seg_end = Some 4,
                            seg_text = Some ''Wow wow, love love'', seg_confidence = None \<rparr>]
   \<and> int (card {k \<in> set engagement_keywords. sublist k (lower ''Wow wow, love love'')}) = 1
   \<and> int (card {k \<in> set emotion_keywords. sublist k (lower ''Wow wow, love love'')}) = 1"
  using keyword_scores_amended [OF keyword_example, of 0] keyword_example
  by simp

subsection \<open>The composite score\<close>

text \<open>
  C5 fails on the code for a segment that maps to a range of zero samples within
  \<open>rms_energy\<close>. For every other segment of a transcript of at least two segments the
  score is the weighted sum of the claim (\<open>composite_score_where_defined\<close>). Here the
  second of two segments, \<open>[1.2, 1.7)\<close> with samples at 0, 1, 2, 3 seconds, maps to the
  empty range \<open>[2:2]\<close>: the weighted sum
  \<open>0.3 z(engagement) + 0.2 z(emotion) + 0.1 question + 0.1 exclamation
  + 0.1 min(z(speaking_rate), 2)\<close> of that segment is 0.4, and its score is NaN.
\<close>

theorem composite_score_zero_samples:
  "extract_text_features
     [\<lparr> seg_start = Some 0, seg_end = Some 1, seg_text = Some ''hello there?'',
        seg_confidence = None \<rparr>,
      \<lparr> seg_start = Some (12 / 10), seg_end = Some (17 / 10), seg_text = Some ''wow! amazing'',
        seg_confidence = None \<rparr>]
   = Inr \<lparr> engagement_scores = [0, 2], emotion_scores = [0, 0], question_scores = [1, 0],
           exclamation_scores = [0, 1], word_counts = [2, 2], speaking_rates = [2, 2] \<rparr>
   \<and> searchsorted [0, 1, 2, 3] (12 / 10) = 2 \<and> searchsorted [0, 1, 2, 3] (17 / 10) = 2
   \<and> score_segments
       [\<lparr> seg_start = Some 0, seg_end = Some 1, seg_text = Some ''hello there?'',
          seg_confidence = None \<rparr>,
        \<lparr> seg_start = Some (12 / 10), seg_end = Some (17 / 10), seg_text = Some ''wow! amazing'',
          seg_confidence = None \<rparr>]
       \<lparr> engagement_scores = [0, 2], emotion_scores = [0, 0], question_scores = [1, 0],
         exclamation_scores = [0, 1], word_counts = [2, 2], speaking_rates = [2, 2] \<rparr>
       \<lparr> rms_energy = Some [1 / 10, 2 / 10, 3 / 10, 4 / 10], time_axis = Some [0, 1, 2, 3] \<rparr>
     = Inr [\<lparr> ss_start_time = 0, ss_end_time = 1, ss_text = ''hello there?'',
               ss_score = Fin 0, ss_confidence = 0 \<rparr>,
            \<lparr> ss_start_time = 12 / 10, ss_end_time = 17 / 10, ss_text = ''wow! amazing'',
               ss_score = NaN, ss_confidence = 0 \<rparr>]
   \<and> spec_text_score
       \<lparr> engagement_scores = [0, 2], emotion_scores = [0, 0], question_scores = [1, 0],
         exclamation_scores = [0, 1], word_counts = [2, 2], speaking_rates = [2, 2] \<rparr> 1
     = 4 / 10"
  by (simp add: feature_defs string_defs scoring_defs spec_text_score_def z_def spec_mean_def
      spec_std_def)

subsection \<open>Exceptions\<close>

text \<open>
  C4, as stated, fails for the audio features: an exception raised while they are
  computed never reaches the \<open>except\<close> of the detection call. \<open>_extract_audio_features\<close>
  catches it and returns the empty dict, and the call returns the result of the scored
  path (title \<open>"Wow"\<close>), not that of the fallback (title \<open>"Highlight 1"\<close>).
\<close>

theorem exceptions_counterexample:
  "extract_audio_features (Inl ProviderError) = empty_audio
   \<and> detect_highlights (Inl ProviderError)
       [\<lparr> seg_start = Some 0, seg_end = Some 40, seg_text = Some ''wow'', seg_confidence = None \<rparr>]
       1 30 60
     = Inr [\<lparr> hl_start_time = 0, hl_end_time = 40, hl_text = ''wow'',
               hl_score = Fin (121 / 400), hl_title = ''Wow'' \<rparr>]
   \<and> fallback_highlights
       [\<lparr> seg_start = Some 0, seg_end = Some 40, seg_text = Some ''wow'', seg_confidence = None \<rparr>]
       1 30 60
     = Inr [\<lparr> hl_start_time = 0, hl_end_time = 40, hl_text = ''wow'',
               hl_score = Fin (1 / 2), hl_title = ''Highlight 1'' \<rparr>]"
  by (simp add: detect_highlights_def scored_path_def single_wow_features scoring_defs
      selection_defs string_defs fallback_highlights_def getitem_def truediv_def
      str_nat.simps)

text \<open>
  C4, amended. Every exception raised in the body of the \<open>try\<close>, such as the
  \<open>KeyError\<close> of a segment without text during text feature extraction, makes the call
  return what the fallback generator returns; once the text features exist, scoring
  raises nothing. An exception of the detection call is therefore one of the fallback.
  An exception raised while the audio features are computed is caught in
  \<open>_extract_audio_features\<close>, which yields the empty dict: the call then behaves as
  with no audio features, and the fallback is not used for that reason.
\<close>

theorem exceptions_amended:
  "(scored_path provider transcription max_clips min_duration max_duration = Inl e \<longrightarrow>
      detect_highlights provider transcription max_clips min_duration max_duration
      = fallback_highlights transcription max_clips min_duration max_duration)
   \<and> (extract_text_features transcription = Inl e \<longrightarrow>
      scored_path provider transcription max_clips min_duration max_duration = Inl e)
   \<and> (extract_text_features transcription = Inr features \<longrightarrow>
      (\<exists>scored. score_segments transcription features audio = Inr scored))
   \<and> (detect_highlights provider transcription max_clips min_duration max_duration = Inl e \<longrightarrow>
      fallback_highlights transcription max_clips min_duration max_duration = Inl e)
   \<and> extract_audio_features (Inl e') = empty_audio
   \<and> detect_highlights (Inl e') transcription max_clips min_duration max_duration
     = detect_highlights (Inr empty_audio) transcription max_clips min_duration max_duration"
proof (intro conjI impI)
  show "detect_highlights provider transcription max_clips min_duration max_duration
      = fallback_highlights transcription max_clips min_duration max_duration"
    if "scored_path provider transcription max_clips min_duration max_duration = Inl e"
    using that by (simp add: detect_highlights_def)
  show "scored_path provider transcription max_clips min_duration max_duration = Inl e"
    if "extract_text_features transcription = Inl e"
    using that by (simp add: scored_path_def)
  show "\<exists>scored. score_segments transcription features audio = Inr scored"
    if "extract_text_features transcription = Inr features"
    using score_segments_Inr [OF that, of audio] by blast
  show "fallback_highlights transcription max_clips min_duration max_duration = Inl e"
    if "detect_highlights provider transcription max_clips min_duration max_duration = Inl e"
    using that by (auto simp: detect_highlights_def split: sum.splits)
  show "extract_audio_features (Inl e') = empty_audio"
    by (simp add: extract_audio_features_def)
  show "detect_highlights (Inl e') transcription max_clips min_duration max_duration
     = detect_highlights (Inr empty_audio) transcription max_clips min_duration max_duration"
    by (simp add: detect_highlights_def scored_path_def extract_audio_features_def)
qed

theorem exceptions_amended_witness:
  "extract_text_features
     [\<lparr> seg_start = Some 0, seg_end = Some 50, seg_text = None, seg_confidence = None \<rparr>,
      \<lparr> seg_start = Some 50, seg_end = Some 60, seg_text = Some ''c'', seg_confidence = None \<rparr>]
   = Inl (KeyError ''text'')
   \<and> scored_path (Inr empty_audio)
     [\<lparr> seg_start = Some 0, seg_end = Some 50, seg_text = None, seg_confidence = None \<rparr>,
      \<lparr> seg_start = Some 50, seg_end = Some 60, seg_text = Some ''c'', seg_confidence = None \<rparr>]
     2 25 40
   = Inl (KeyError ''text'')
   \<and> fallback_highlights
     [\<lparr> seg_start = Some 0, seg_end = Some 50, seg_text = None, seg_confidence = None \<rparr>,
      \<lparr> seg_start = Some 50, seg_end = Some 60, seg_text = Some ''c'', seg_confidence = None \<rparr>]
     2 25 40
   = Inr [\<lparr> hl_start_time = 40, hl_end_time = 60, hl_text = ''c'', hl_score = Fin 0.5,
             hl_title = ''Highlight 2'' \<rparr>]
   \<and> detect_highlights (Inr empty_audio)
     [\<lparr> seg_start = Some 0, seg_end = Some 10, seg_text = None, seg_confidence = None \<rparr>]
     1 30 60
   = Inl (KeyError ''text'')
   \<and> fallback_highlights
     [\<lparr> seg_start = Some 0, seg_end = Some 10, seg_text = None, seg_confidence = None \<rparr>]
     1 30 60
   = Inl (KeyError ''text'')
   \<and> extract_text_features
     [\<lparr> seg_start = Some 0, seg_end = Some 40, seg_text = Some ''wow'', seg_confidence = None \<rparr>]
   = Inr \<lparr> engagement_scores = [1], emotion_scores = [0], question_scores = [0],
           exclamation_scores = [0], word_counts = [1], speaking_rates = [1 / 40] \<rparr>
   \<and> (\<exists>scored. score_segments
     [\<lparr> seg_start = Some 0, seg_end = Some 40, seg_text = Some ''wow'', seg_confidence = None \<rparr>]
     \<lparr> engagement_scores = [1], emotion_scores = [0], question_scores = [0],
           exclamation_scores = [0], word_counts = [1], speaking_rates = [1 / 40] \<rparr>
     empty_audio = Inr scored)"
proof -
  let ?X = "[\<lparr> seg_start = Some 0, seg_end = Some 50, seg_text = None, seg_confidence = None \<rparr>,
      \<lparr> seg_start = Some 50, seg_end = Some 60, seg_text = Some ''c'', seg_confidence = None \<rparr>]"
  let ?Y = "[\<lparr> seg_start = Some 0, seg_end = Some 10, seg_text = None, seg_confidence = None \<rparr>]"
  let ?W = "[\<lparr> seg_start = Some 0, seg_end = Some 40, seg_text = Some ''wow'', seg_confidence = None \<rparr>]"
  note x = exceptions_amended [of "Inr empty_audio" ?X 2 25 40 "KeyError ''text''"]
  have sp: "scored_path (Inr empty_audio) ?X 2 25 40 = Inl (KeyError ''text'')"
    using x missing_text_features by blast
  then have "detect_highlights (Inr empty_audio) ?X 2 25 40 = fallback_highlights ?X 2 25 40"
    using x by blast
  then have fb: "fallback_highlights ?X 2 25 40
     = Inr [\<lparr> hl_start_time = 40, hl_end_time = 60, hl_text = ''c'', hl_score = Fin 0.5,
             hl_title = ''Highlight 2'' \<rparr>]"
    using fallback_example by simp
  have y: "fallback_highlights ?Y 1 30 60 = Inl (KeyError ''text'')"
    using exceptions_amended [of "Inr empty_audio" ?Y 1 30 60 "KeyError ''text''"]
      missing_text_propagates by blast
  have w: "\<exists>scored. score_segments ?W
     \<lparr> engagement_scores = [1], emotion_scores = [0], question_scores = [0],
           exclamation_scores = [0], word_counts = [1], speaking_rates = [1 / 40] \<rparr>
     empty_audio = Inr scored"
    using exceptions_amended [of _ ?W _ _ _ _ _ empty_audio] single_wow_features by blast
  show ?thesis
    using missing_text_features sp fb missing_text_propagates y single_wow_features w
    by (intro conjI)
qed

subsection \<open>Segments without audio samples\<close>

text \<open>
  C6 holds when the audio features are absent or empty and when the start index is
  out of range (\<open>energy_score_absent\<close>, \<open>energy_score_empty_series\<close>,
  \<open>energy_score_start_out_of_range\<close>), and fails for a range of zero samples
  (\<open>energy_score_empty_range\<close>): with samples at 0, 1, 2, 3 seconds the segment
  \<open>[1.2, 1.7)\<close> maps to the empty range \<open>[2:2]\<close>, whose mean is NaN, and the score
  of the segment and of the highlight made from it is NaN, where the same call without
  audio features gives 0.4.
\<close>

theorem zero_sample_range_gives_nan:
  "searchsorted [0, 1, 2, 3] (12 / 10) = 2 \<and> searchsorted [0, 1, 2, 3] (17 / 10) = 2
   \<and> detect_highlights
       (Inr \<lparr> rms_energy = Some [1 / 10, 2 / 10, 3 / 10, 4 / 10],
              time_axis = Some [0, 1, 2, 3] \<rparr>)
       [\<lparr> seg_start = Some (12 / 10), seg_end = Some (17 / 10), seg_text = Some ''wow'',
          seg_confidence = None \<rparr>]
       1 30 60
     = Inr [\<lparr> hl_start_time = 0, hl_end_time = 329 / 20, hl_text = ''wow'', hl_score = NaN,
               hl_title = ''Wow'' \<rparr>]
   \<and> detect_highlights (Inr empty_audio)
       [\<lparr> seg_start = Some (12 / 10), seg_end = Some (17 / 10), seg_text = Some ''wow'',
          seg_confidence = None \<rparr>]
       1 30 60
     = Inr [\<lparr> hl_start_time = 0, hl_end_time = 329 / 20, hl_text = ''wow'',
               hl_score = Fin (4 / 10), hl_title = ''Wow'' \<rparr>]"
  by (simp add: detect_highlights_def scored_path_def feature_defs scoring_defs
      selection_defs string_defs)

subsection \<open>A transcript of one segment\<close>

text \<open>
  C8 fails on the code for a single segment that maps to a range of zero samples. For
  a transcript of one segment, text feature extraction and scoring return without an
  exception, nothing is normalised, and the text part of the score is the weighted sum
  of the signals as they are (\<open>single_segment_scores\<close>). But the audio block takes the
  mean of the samples in range, which divides their sum by their number: for the
  segment \<open>[1.2, 1.7)\<close> with samples at 0, 1, 2, 3 seconds that number is 0, the mean
  is NaN and so is the score, where the signals as they are give 0.7.
\<close>

theorem single_segment_zero_samples:
  "extract_text_features
     [\<lparr> seg_start = Some (12 / 10), seg_end = Some (17 / 10), seg_text = Some ''wow! really?'',
        seg_confidence = None \<rparr>]
   = Inr \<lparr> engagement_scores = [1], emotion_scores = [0], question_scores = [1],
           exclamation_scores = [1], word_counts = [2], speaking_rates = [2] \<rparr>
   \<and> length (slice [1 / 10, 2 / 10, 3 / 10, 4 / 10 :: real]
               (searchsorted [0, 1, 2, 3] (12 / 10)) (searchsorted [0, 1, 2, 3] (17 / 10))) = 0
   \<and> np_mean (slice [1 / 10, 2 / 10, 3 / 10, 4 / 10]
               (searchsorted [0, 1, 2, 3] (12 / 10)) (searchsorted [0, 1, 2, 3] (17 / 10))) = NaN
   \<and> score_segments
       [\<lparr> seg_start = Some (12 / 10), seg_end = Some (17 / 10), seg_text = Some ''wow! really?'',
          seg_confidence = None \<rparr>]
       \<lparr> engagement_scores = [1], emotion_scores = [0], question_scores = [1],
         exclamation_scores = [1], word_counts = [2], speaking_rates = [2] \<rparr>
       \<lparr> rms_energy = Some [1 / 10, 2 / 10, 3 / 10, 4 / 10], time_axis = Some [0, 1, 2, 3] \<rparr>
     = Inr [\<lparr> ss_start_time = 12 / 10, ss_end_time = 17 / 10, ss_text = ''wow! really?'',
               ss_score = NaN, ss_confidence = 0 \<rparr>]
   \<and> raw_text_score
       \<lparr> engagement_scores = [1], emotion_scores = [0], question_scores = [1],
         exclamation_scores = [1], word_counts = [2], speaking_rates = [2] \<rparr> 0
     = 7 / 10
   \<and> score_segments
       [\<lparr> seg_start = Some (12 / 10), seg_end = Some (17 / 10), seg_text = Some ''wow! really?'',
          seg_confidence = None \<rparr>]
       \<lparr> engagement_scores = [1], emotion_scores = [0], question_scores = [1],
         exclamation_scores = [1], word_counts = [2], speaking_rates = [2] \<rparr>
       empty_audio
     = Inr [\<lparr> ss_start_time = 12 / 10, ss_end_time = 17 / 10, ss_text = ''wow! really?'',
               ss_score = Fin (7 / 10), ss_confidence = 0 \<rparr>]"
  by (simp add: feature_defs string_defs scoring_defs raw_text_score_def)

subsection \<open>Skipped windows of the fallback\<close>

text \<open>
  C10. In the fallback loop, an iteration whose window text is empty after stripping
  appends nothing: the loop goes on with the next value of \<open>i\<close> and the cursor at the
  window end plus 10, or stops when that cursor has reached the end of the transcript.
  A window within which no segment lies has the empty text. So the result can have
  fewer than \<open>max_clips\<close> highlights and the titles can skip a number: for three
  windows \<open>[0, 30]\<close>, \<open>[40, 70]\<close>, \<open>[80, 90]\<close> with no segment inside the second, the
  highlights are \<open>"Highlight 1"\<close> and \<open>"Highlight 3"\<close>.
\<close>

theorem fallback_skips_empty_windows:
  "(window_text current_time (min (current_time + segment_duration) last_end) [] transcription
      = Inr body \<and> strip body = [] \<longrightarrow>
    fallback_loop transcription segment_duration last_end (Suc remaining) i current_time
    = (if min (current_time + segment_duration) last_end + 10 \<ge> last_end then Inr []
       else fallback_loop transcription segment_duration last_end remaining (Suc i)
              (min (current_time + segment_duration) last_end + 10)))
   \<and> ((\<forall>segment\<in>set transcription. \<exists>s e. seg_start segment = Some s \<and> seg_end segment = Some e
          \<and> \<not> (s \<ge> start_time \<and> e \<le> end_time)) \<longrightarrow>
       window_text start_time end_time [] transcription = Inr [])
   \<and> fallback_highlights
       [\<lparr> seg_start = Some 0, seg_end = Some 10, seg_text = Some ''a'', seg_confidence = None \<rparr>,
        \<lparr> seg_start = Some 10, seg_end = Some 75, seg_text = Some ''b'', seg_confidence = None \<rparr>,
        \<lparr> seg_start = Some 80, seg_end = Some 90, seg_text = Some ''c'', seg_confidence = None \<rparr>]
       3 20 40
     = Inr [\<lparr> hl_start_time = 0, hl_end_time = 30, hl_text = ''a'', hl_score = Fin 0.5,
               hl_title = ''Highlight 1'' \<rparr>,
            \<lparr> hl_start_time = 80, hl_end_time = 90, hl_text = ''c'', hl_score = Fin 0.5,
               hl_title = ''Highlight 3'' \<rparr>]"
proof (intro conjI impI)
  assume a: "window_text current_time (min (current_time + segment_duration) last_end) []
               transcription = Inr body \<and> strip body = []"
  define e where "e = min (current_time + segment_duration) last_end"
  have w: "window_text current_time e [] transcription = Inr body"
    and wh: "window_highlights current_time e body i = []"
    using a by (simp_all add: e_def window_highlights_empty)
  have "fallback_loop transcription segment_duration last_end (Suc remaining) i current_time
        = and_then (window_text current_time e [] transcription) (\<lambda>body.
            if e + 10 \<ge> last_end then Inr (window_highlights current_time e body i)
            else and_then (fallback_loop transcription segment_duration last_end remaining
                             (Suc i) (e + 10))
                   (\<lambda>later. Inr (window_highlights current_time e body i @ later)))"
    unfolding e_def by (rule fallback_loop_Suc)
  also have "\<dots> = (if e + 10 \<ge> last_end then Inr []
       else fallback_loop transcription segment_duration last_end remaining (Suc i) (e + 10))"
    by (simp add: w wh and_then_Inr_id)
  finally show "fallback_loop transcription segment_duration last_end (Suc remaining) i current_time
    = (if min (current_time + segment_duration) last_end + 10 \<ge> last_end then Inr []
       else fallback_loop transcription segment_duration last_end remaining (Suc i)
              (min (current_time + segment_duration) last_end + 10))"
    unfolding e_def .
next
  assume "\<forall>segment\<in>set transcription. \<exists>s e. seg_start segment = Some s \<and> seg_end segment = Some e
          \<and> \<not> (s \<ge> start_time \<and> e \<le> end_time)"
  then show "window_text start_time end_time [] transcription = Inr []"
    by (rule window_text_none_inside)
next
  show "fallback_highlights
       [\<lparr> seg_start = Some 0, seg_end = Some 10, seg_text = Some ''a'', seg_confidence = None \<rparr>,
        \<lparr> seg_start = Some 10, seg_end = Some 75, seg_text = Some ''b'', seg_confidence = None \<rparr>,
        \<lparr> seg_start = Some 80, seg_end = Some 90, seg_text = Some ''c'', seg_confidence = None \<rparr>]
       3 20 40
     = Inr [\<lparr> hl_start_time = 0, hl_end_time = 30, hl_text = ''a'', hl_score = Fin 0.5,
               hl_title = ''Highlight 1'' \<rparr>,
            \<lparr> hl_start_time = 80, hl_end_time = 90, hl_text = ''c'', hl_score = Fin 0.5,
               hl_title = ''Highlight 3'' \<rparr>]"
    by (rule skip_example)
qed

theorem fallback_skips_empty_windows_witness:
  "window_text 40 70 []
     [\<lparr> seg_start = Some 0, seg_end = Some 10, seg_text = Some ''a'', seg_confidence = None \<rparr>,
      \<lparr> seg_start = Some 10, seg_end = Some 75, seg_text = Some ''b'', seg_confidence = None \<rparr>,
      \<lparr> seg_start = Some 80, seg_end = Some 90, seg_text = Some ''c'', seg_confidence = None \<rparr>]
   = Inr []
   \<and> strip [] = []
   \<and> fallback_loop
     [\<lparr> seg_start = Some 0, seg_end = Some 10, seg_text = Some ''a'', seg_confidence = None \<rparr>,
      \<lparr> seg_start = Some 10, seg_end = Some 75, seg_text = Some ''b'', seg_confidence = None \<rparr>,
      \<lparr> seg_start = Some 80, seg_end = Some 90, seg_text = Some ''c'', seg_confidence = None \<rparr>]
     30 90 (Suc 1) 1 40
   = fallback_loop
     [\<lparr> seg_start = Some 0, seg_end = Some 10, seg_text = Some ''a'', seg_confidence = None \<rparr>,
      \<lparr> seg_start = Some 10, seg_end = Some 75, seg_text = Some ''b'', seg_confidence = None \<rparr>,
      \<lparr> seg_start = Some 80, seg_end = Some 90, seg_text = Some ''c'', seg_confidence = None \<rparr>]
     30 90 1 (Suc 1) 80"
proof -
  let ?T = "[\<lparr> seg_start = Some 0, seg_end = Some 10, seg_text = Some ''a'', seg_confidence = None \<rparr>,
      \<lparr> seg_start = Some 10, seg_end = Some 75, seg_text = Some ''b'', seg_confidence = None \<rparr>,
      \<lparr> seg_start = Some 80, seg_end = Some 90, seg_text = Some ''c'', seg_confidence = None \<rparr>]"
  note skips = fallback_skips_empty_windows [of 40 30 90 ?T "[]" 1 1 40 70]
  have inside: "\<forall>segment\<in>set ?T. \<exists>s e. seg_start segment = Some s \<and> seg_end segment = Some e
          \<and> \<not> (s \<ge> 40 \<and> e \<le> 70)"
    by simp
  with skips have w: "window_text 40 70 [] ?T = Inr []" by blast
  then have "window_text 40 (min (40 + 30) 90) [] ?T = Inr [] \<and> strip [] = []" by simp
  with skips have "fallback_loop ?T 30 90 (Suc 1) 1 40
    = (if min (40 + 30) 90 + 10 \<ge> (90::real) then Inr []
       else fallback_loop ?T 30 90 1 (Suc 1) (min (40 + 30) 90 + 10))"
    by blast
  then have "fallback_loop ?T 30 90 (Suc 1) 1 40 = fallback_loop ?T 30 90 1 (Suc 1) 80"
    by simp
  with w show ?thesis by simp
qed

subsection \<open>Titles\<close>



end
